theory Spec2Isabelle
  imports Main
begin

section \<open>The library boundary\<close>

text \<open>
  The parsers of \<^verbatim>\<open>src/rpc/parsers.ts\<close> call into \<^verbatim>\<open>@stellar/stellar-base\<close>:
  \<^verbatim>\<open>xdr.T.fromXDR(s, 'base64')\<close> for nine XDR types \<open>T\<close>, \<^verbatim>\<open>new Contract(id)\<close>,
  \<^verbatim>\<open>new SorobanDataBuilder(data)\<close>, \<^verbatim>\<open>xdr.ScVal.scvVoid()\<close> and three accessors of a decoded
  \<^verbatim>\<open>TransactionMeta\<close>. That library is not part of the repository, so it is a parameter of
  every parser here: a record of functions over an arbitrary type \<open>'x\<close> of library objects.
  A library call that throws returns \<open>None\<close>.
\<close>

datatype xdr_type =
  DiagnosticEvent | TransactionResult | TransactionMeta | TransactionEnvelope | ScVal
  | LedgerKey | LedgerEntryData | LedgerEntry | SorobanAuthorizationEntry

record 'x codec =
  fromXDR :: "xdr_type \<Rightarrow> string \<Rightarrow> 'x option"
  newContract :: "string \<Rightarrow> 'x option"
  newSorobanDataBuilder :: "string option \<Rightarrow> 'x option"
  scvVoid :: "'x"
  metaSwitch :: "'x \<Rightarrow> int"
  metaV3SorobanMeta :: "'x \<Rightarrow> 'x option"
  sorobanReturnValue :: "'x \<Rightarrow> 'x"

text \<open>
  \<open>metaSwitch m\<close> is \<^verbatim>\<open>m.switch()\<close>; \<open>metaV3SorobanMeta m\<close> is \<^verbatim>\<open>m.v3().sorobanMeta()\<close>,
  \<open>None\<close> for \<^verbatim>\<open>null\<close> (the source calls it only after \<^verbatim>\<open>m.switch() === 3\<close>);
  \<open>sorobanReturnValue s\<close> is \<^verbatim>\<open>s.returnValue()\<close>.
\<close>

subsection \<open>Raw ledger entries and the errors of the parsers\<close>

text \<open>
  Modelled from the spec: \<^verbatim>\<open>Api.RawLedgerEntryResult\<close> (declared in \<^verbatim>\<open>api.ts\<close>, which is
  not among the sources): the four fields that \<^verbatim>\<open>parseRawLedgerEntries\<close> reads. An absent
  field is \<open>None\<close>.
\<close>

record raw_ledger_entry =
  rle_lastModifiedLedgerSeq :: "int option"
  rle_key :: "string option"
  rle_xdr :: "string option"
  rle_liveUntilLedgerSeq :: "int option"

text \<open>
  What a parser can throw: the \<^verbatim>\<open>TypeError\<close> of \<^verbatim>\<open>parseRawLedgerEntries\<close>, whose message is
  the JSON text of the raw entry (here: the entry), and the exceptions of the library calls.
\<close>

datatype error =
  InvalidLedgerEntry raw_ledger_entry
  | DecodeFailure xdr_type "string option"
  | ContractFailure string
  | SorobanDataFailure "string option"

type_synonym 'a result = "error + 'a"

definition bindE :: "'a result \<Rightarrow> ('a \<Rightarrow> 'b result) \<Rightarrow> 'b result" where
  "bindE m f = (case m of Inl e \<Rightarrow> Inl e | Inr v \<Rightarrow> f v)"

text \<open>\<^verbatim>\<open>xs.map(f)\<close> with a callback that may throw: the first exception ends the call.\<close>

fun mapE :: "('a \<Rightarrow> 'b result) \<Rightarrow> 'a list \<Rightarrow> 'b list result" where
  "mapE f [] = Inr []"
| "mapE f (x # xs) =
     (case f x of
        Inl e \<Rightarrow> Inl e
      | Inr y \<Rightarrow> (case mapE f xs of Inl e \<Rightarrow> Inl e | Inr ys \<Rightarrow> Inr (y # ys)))"

definition decode :: "'x codec \<Rightarrow> xdr_type \<Rightarrow> string \<Rightarrow> 'x result" where
  "decode cdc ty s =
     (case fromXDR cdc ty s of None \<Rightarrow> Inl (DecodeFailure ty (Some s)) | Some v \<Rightarrow> Inr v)"

text \<open>
  \<^verbatim>\<open>xdr.T.fromXDR(raw.field!, 'base64')\<close>: the \<^verbatim>\<open>!\<close> only silences the type checker, and
  \<^verbatim>\<open>fromXDR(undefined, 'base64')\<close> throws.
\<close>

definition decodeRequired :: "'x codec \<Rightarrow> xdr_type \<Rightarrow> string option \<Rightarrow> 'x result" where
  "decodeRequired cdc ty s =
     (case s of None \<Rightarrow> Inl (DecodeFailure ty None) | Some t \<Rightarrow> decode cdc ty t)"

definition contractOf :: "'x codec \<Rightarrow> string \<Rightarrow> 'x result" where
  "contractOf cdc s =
     (case newContract cdc s of None \<Rightarrow> Inl (ContractFailure s) | Some c \<Rightarrow> Inr c)"

definition sorobanDataOf :: "'x codec \<Rightarrow> string option \<Rightarrow> 'x result" where
  "sorobanDataOf cdc s =
     (case newSorobanDataBuilder cdc s of None \<Rightarrow> Inl (SorobanDataFailure s) | Some b \<Rightarrow> Inr b)"

text \<open>
  JavaScript truthiness of an optional string, as in \<^verbatim>\<open>if (errorResultXdr)\<close>,
  \<^verbatim>\<open>!rawEntry.key\<close> and \<^verbatim>\<open>row.xdr ? ... : ...\<close>: \<^verbatim>\<open>undefined\<close>, \<^verbatim>\<open>null\<close> and the empty
  string are falsy.
\<close>

definition truthy :: "string option \<Rightarrow> bool" where
  "truthy s = (case s of None \<Rightarrow> False | Some t \<Rightarrow> t \<noteq> [])"

section \<open>parseRawSendTransaction\<close>

text \<open>
  Modelled from the spec: \<^verbatim>\<open>Api.RawSendTransactionResponse\<close> (\<^verbatim>\<open>api.ts\<close>): the two optional
  raw fields the parser names, and the remaining fields (status, hash, \<dots>), which the
  parser only copies with \<^verbatim>\<open>...r\<close>, as one component of an arbitrary type \<open>'r\<close>.
\<close>

record 'r raw_send_transaction =
  errorResultXdr :: "string option"
  diagnosticEventsXdr :: "string list option"
  rs_rest :: "'r"

text \<open>
  The object the parser returns: the own fields of \<^verbatim>\<open>r\<close> copied by the spread (so the two raw
  fields could be among them), then \<^verbatim>\<open>diagnosticEvents\<close> and \<^verbatim>\<open>errorResult\<close>.
\<close>

record ('x, 'r) send_transaction =
  st_errorResultXdr :: "string option"
  st_diagnosticEventsXdr :: "string list option"
  st_rest :: "'r"
  st_diagnosticEvents :: "'x list option"
  st_errorResult :: "'x option"

text \<open>
  \<^verbatim>\<open>delete r.errorResultXdr; delete r.diagnosticEventsXdr\<close> act on the caller's object, so the
  model returns that object as it is after the call, next to the result.
\<close>

definition parseRawSendTransaction ::
  "'x codec \<Rightarrow> 'r raw_send_transaction \<Rightarrow>
     'r raw_send_transaction \<times> ('x, 'r) send_transaction result" where
  "parseRawSendTransaction cdc r0 =
     (let errorResultXdr' = errorResultXdr r0;
          diagnosticEventsXdr' = diagnosticEventsXdr r0;
          r = r0\<lparr>errorResultXdr := None, diagnosticEventsXdr := None\<rparr>
      in (r,
          if truthy errorResultXdr' then
            bindE (case diagnosticEventsXdr' of
                     None \<Rightarrow> Inr None
                   | Some evts \<Rightarrow>
                       if length evts > 0
                       then bindE (mapE (decode cdc DiagnosticEvent) evts) (\<lambda>ds. Inr (Some ds))
                       else Inr None)
              (\<lambda>diagnosticEvents.
                 bindE (decodeRequired cdc TransactionResult errorResultXdr')
                   (\<lambda>errorResult.
                      Inr \<lparr>st_errorResultXdr = errorResultXdr r,
                           st_diagnosticEventsXdr = diagnosticEventsXdr r,
                           st_rest = rs_rest r,
                           st_diagnosticEvents = diagnosticEvents,
                           st_errorResult = Some errorResult\<rparr>))
          else
            Inr \<lparr>st_errorResultXdr = errorResultXdr r,
                 st_diagnosticEventsXdr = diagnosticEventsXdr r,
                 st_rest = rs_rest r,
                 st_diagnosticEvents = None,
                 st_errorResult = None\<rparr>))"

section \<open>parseTransactionInfo and parseRawTransactions\<close>

text \<open>
  Modelled from the spec: \<^verbatim>\<open>Api.RawTransactionInfo | Api.RawGetTransactionResponse\<close>
  (\<^verbatim>\<open>api.ts\<close>): the fields the parser reads. The scalar fields are copied as they are
  (\<^verbatim>\<open>raw.ledger!\<close>), so an absent one stays absent.
\<close>

record raw_transaction_info =
  rti_status :: "string"
  rti_ledger :: "int option"
  rti_createdAt :: "int option"
  rti_applicationOrder :: "int option"
  rti_feeBump :: "bool option"
  rti_envelopeXdr :: "string option"
  rti_resultXdr :: "string option"
  rti_resultMetaXdr :: "string option"
  rti_diagnosticEventsXdr :: "string list option"

record 'x transaction_info =
  ti_ledger :: "int option"
  ti_createdAt :: "int option"
  ti_applicationOrder :: "int option"
  ti_feeBump :: "bool option"
  ti_envelopeXdr :: "'x"
  ti_resultXdr :: "'x"
  ti_resultMetaXdr :: "'x"
  ti_returnValue :: "'x option"
  ti_diagnosticEventsXdr :: "'x list option"

definition parseTransactionInfo ::
  "'x codec \<Rightarrow> raw_transaction_info \<Rightarrow> 'x transaction_info result" where
  "parseTransactionInfo cdc raw =
     bindE (decodeRequired cdc TransactionMeta (rti_resultMetaXdr raw)) (\<lambda>meta.
     bindE (decodeRequired cdc TransactionEnvelope (rti_envelopeXdr raw)) (\<lambda>envelope.
     bindE (decodeRequired cdc TransactionResult (rti_resultXdr raw)) (\<lambda>res.
       let info = \<lparr>ti_ledger = rti_ledger raw,
                   ti_createdAt = rti_createdAt raw,
                   ti_applicationOrder = rti_applicationOrder raw,
                   ti_feeBump = rti_feeBump raw,
                   ti_envelopeXdr = envelope,
                   ti_resultXdr = res,
                   ti_resultMetaXdr = meta,
                   ti_returnValue = None,
                   ti_diagnosticEventsXdr = None\<rparr>;
           info = (if metaSwitch cdc meta = 3 \<and> metaV3SorobanMeta cdc meta \<noteq> None
                   then info\<lparr>ti_returnValue :=
                          map_option (sorobanReturnValue cdc) (metaV3SorobanMeta cdc meta)\<rparr>
                   else info)
       in case rti_diagnosticEventsXdr raw of
            None \<Rightarrow> Inr info
          | Some evts \<Rightarrow>
              bindE (mapE (decode cdc DiagnosticEvent) evts)
                (\<lambda>ds. Inr (info\<lparr>ti_diagnosticEventsXdr := Some ds\<rparr>)))))"

text \<open>\<^verbatim>\<open>{ status: r.status, ...parseTransactionInfo(r) }\<close>: the status next to the parsed fields.\<close>

definition parseRawTransactions ::
  "'x codec \<Rightarrow> raw_transaction_info \<Rightarrow> (string \<times> 'x transaction_info) result" where
  "parseRawTransactions cdc r =
     bindE (parseTransactionInfo cdc r) (\<lambda>info. Inr (rti_status r, info))"

section \<open>parseRawEvents\<close>

text \<open>
  Modelled from the spec: \<^verbatim>\<open>Api.RawEventResponse\<close> and \<^verbatim>\<open>Api.RawGetEventsResponse\<close>
  (\<^verbatim>\<open>api.ts\<close>): the three fields the parser transforms, and the fields it only copies
  (through \<^verbatim>\<open>{ ...evt }\<close>) as one component of an arbitrary type \<open>'r\<close>.
\<close>

record 'r raw_event =
  re_contractId :: "string"
  re_topic :: "string list"
  re_value :: "string"
  re_rest :: "'r"

record 'r raw_get_events =
  rge_latestLedger :: "int"
  rge_events :: "'r raw_event list option"

record ('x, 'r) event =
  ev_rest :: "'r"
  ev_contractId :: "'x option"
  ev_topic :: "'x list"
  ev_value :: "'x"

record ('x, 'r) get_events =
  ge_latestLedger :: "int"
  ge_events :: "('x, 'r) event list"

text \<open>
  The callback of \<^verbatim>\<open>.map\<close> in \<^verbatim>\<open>parseRawEvents\<close>. The clone has every field of the event but
  \<^verbatim>\<open>contractId\<close>; its raw \<^verbatim>\<open>topic\<close> and \<^verbatim>\<open>value\<close> are overwritten by the decoded ones.
\<close>

definition parseEvent :: "'x codec \<Rightarrow> 'r raw_event \<Rightarrow> ('x, 'r) event result" where
  "parseEvent cdc evt =
     bindE (if re_contractId evt \<noteq> []
            then bindE (contractOf cdc (re_contractId evt)) (\<lambda>c. Inr (Some c))
            else Inr None) (\<lambda>contractId.
     bindE (mapE (decode cdc ScVal) (re_topic evt)) (\<lambda>topic.
     bindE (decode cdc ScVal (re_value evt)) (\<lambda>v.
       Inr \<lparr>ev_rest = re_rest evt, ev_contractId = contractId,
            ev_topic = topic, ev_value = v\<rparr>)))"

definition parseRawEvents :: "'x codec \<Rightarrow> 'r raw_get_events \<Rightarrow> ('x, 'r) get_events result" where
  "parseRawEvents cdc r =
     bindE (mapE (parseEvent cdc) (case rge_events r of None \<Rightarrow> [] | Some evts \<Rightarrow> evts))
       (\<lambda>events. Inr \<lparr>ge_latestLedger = rge_latestLedger r, ge_events = events\<rparr>)"

section \<open>parseRawLedgerEntries\<close>

text \<open>
  Modelled from the spec: \<^verbatim>\<open>Api.RawGetLedgerEntriesResponse\<close> (\<^verbatim>\<open>api.ts\<close>): the latest ledger
  and the optional list of raw entries.
\<close>

record raw_get_ledger_entries =
  rgl_latestLedger :: "int"
  rgl_entries :: "raw_ledger_entry list option"

record 'x ledger_entry_result =
  le_lastModifiedLedgerSeq :: "int option"
  le_key :: "'x"
  le_val :: "'x"
  le_liveUntilLedgerSeq :: "int option"

record 'x get_ledger_entries =
  gl_latestLedger :: "int"
  gl_entries :: "'x ledger_entry_result list"

text \<open>The callback of \<^verbatim>\<open>.map\<close> in \<^verbatim>\<open>parseRawLedgerEntries\<close>.\<close>

definition parseLedgerEntry :: "'x codec \<Rightarrow> raw_ledger_entry \<Rightarrow> 'x ledger_entry_result result" where
  "parseLedgerEntry cdc rawEntry =
     (if \<not> truthy (rle_key rawEntry) \<or> \<not> truthy (rle_xdr rawEntry)
      then Inl (InvalidLedgerEntry rawEntry)
      else
        bindE (decodeRequired cdc LedgerKey (rle_key rawEntry)) (\<lambda>k.
        bindE (decodeRequired cdc LedgerEntryData (rle_xdr rawEntry)) (\<lambda>v.
          Inr \<lparr>le_lastModifiedLedgerSeq = rle_lastModifiedLedgerSeq rawEntry,
               le_key = k, le_val = v,
               le_liveUntilLedgerSeq = rle_liveUntilLedgerSeq rawEntry\<rparr>)))"

definition parseRawLedgerEntries ::
  "'x codec \<Rightarrow> raw_get_ledger_entries \<Rightarrow> 'x get_ledger_entries result" where
  "parseRawLedgerEntries cdc raw =
     bindE (mapE (parseLedgerEntry cdc)
              (case rgl_entries raw of None \<Rightarrow> [] | Some entries \<Rightarrow> entries))
       (\<lambda>entries. Inr \<lparr>gl_latestLedger = rgl_latestLedger raw, gl_entries = entries\<rparr>)"

section \<open>parseRawSimulation\<close>

text \<open>
  Modelled from the spec: \<^verbatim>\<open>Api.RawSimulateTransactionResponse\<close> and the raw shapes nested in
  it (\<^verbatim>\<open>api.ts\<close>): every field the parser reads; \<^verbatim>\<open>?.\<close>, \<^verbatim>\<open>??\<close> and \<^verbatim>\<open>!\<close> in the source mark
  the optional ones. The cost metrics are only copied, so their type \<open>'c\<close> is arbitrary.
\<close>

record raw_simulate_result =
  rsr_auth :: "string list option"
  rsr_xdr :: "string option"

record raw_ledger_entry_change =
  rlc_type :: "int"
  rlc_key :: "string"
  rlc_before :: "string option"
  rlc_after :: "string option"

record raw_restore_preamble =
  rrp_minResourceFee :: "string"
  rrp_transactionData :: "string"

record 'c raw_simulate_transaction =
  rsim_id :: "string"
  rsim_latestLedger :: "int"
  rsim_error :: "string option"
  rsim_transactionData :: "string option"
  rsim_events :: "string list option"
  rsim_minResourceFee :: "string option"
  rsim_results :: "raw_simulate_result list option"
  rsim_cost :: "'c option"
  rsim_restorePreamble :: "raw_restore_preamble option"
  rsim_stateChanges :: "raw_ledger_entry_change list option"

text \<open>
  The parsed response: \<^verbatim>\<open>Api.SimulateTransactionResponse\<close> is a union of three object
  shapes over the same base fields; each \<^verbatim>\<open>return\<close> of the source builds one of them.
\<close>

record 'x base_simulate_transaction =
  bs_parsed :: "bool"
  bs_id :: "string"
  bs_latestLedger :: "int"
  bs_events :: "'x list"

record 'x simulate_host_function_result =
  hr_auth :: "'x list"
  hr_retval :: "'x"

record 'x ledger_entry_change =
  lc_type :: "int"
  lc_key :: "'x"
  lc_before :: "'x option"
  lc_after :: "'x option"

record ('x, 'c) simulate_success =
  ss_transactionData :: "'x"
  ss_minResourceFee :: "string option"
  ss_cost :: "'c option"
  ss_result :: "'x simulate_host_function_result option"
  ss_stateChanges :: "'x ledger_entry_change list option"

record 'x restore_preamble =
  rp_minResourceFee :: "string"
  rp_transactionData :: "'x"

datatype ('x, 'c) simulate_transaction =
  ErrorResponse "'x base_simulate_transaction" string
  | SuccessResponse "'x base_simulate_transaction" "('x, 'c) simulate_success"
  | RestoreResponse "'x base_simulate_transaction" "('x, 'c) simulate_success"
      "'x restore_preamble"

text \<open>The callback of \<^verbatim>\<open>sim.results!.map\<close>.\<close>

definition parseResultRow ::
  "'x codec \<Rightarrow> raw_simulate_result \<Rightarrow> 'x simulate_host_function_result result" where
  "parseResultRow cdc row =
     bindE (mapE (decode cdc SorobanAuthorizationEntry)
              (case rsr_auth row of None \<Rightarrow> [] | Some entries \<Rightarrow> entries)) (\<lambda>auth.
     bindE (if truthy (rsr_xdr row) then decodeRequired cdc ScVal (rsr_xdr row)
            else Inr (scvVoid cdc)) (\<lambda>retval.
       Inr \<lparr>hr_auth = auth, hr_retval = retval\<rparr>))"

text \<open>\<^verbatim>\<open>s ? xdr.LedgerEntry.fromXDR(s, 'base64') : null\<close>.\<close>

definition parseSnapshot :: "'x codec \<Rightarrow> string option \<Rightarrow> 'x option result" where
  "parseSnapshot cdc s =
     (if truthy s then bindE (decodeRequired cdc LedgerEntry s) (\<lambda>e. Inr (Some e))
      else Inr None)"

text \<open>The callback of \<^verbatim>\<open>sim.stateChanges?.map\<close>.\<close>

definition parseEntryChange ::
  "'x codec \<Rightarrow> raw_ledger_entry_change \<Rightarrow> 'x ledger_entry_change result" where
  "parseEntryChange cdc entryChange =
     bindE (decode cdc LedgerKey (rlc_key entryChange)) (\<lambda>k.
     bindE (parseSnapshot cdc (rlc_before entryChange)) (\<lambda>before.
     bindE (parseSnapshot cdc (rlc_after entryChange)) (\<lambda>after.
       Inr \<lparr>lc_type = rlc_type entryChange, lc_key = k,
            lc_before = before, lc_after = after\<rparr>)))"

text \<open>
  The guard \<^verbatim>\<open>xs?.length ?? 0 > 0\<close> of both spreads. \<^verbatim>\<open>>\<close> binds tighter than \<^verbatim>\<open>??\<close>, so it
  reads \<^verbatim>\<open>xs?.length ?? (0 > 0)\<close>: \<^verbatim>\<open>false\<close> for an absent list and the length of a present
  one, which is falsy exactly when it is 0. Spreading \<^verbatim>\<open>false\<close> or \<^verbatim>\<open>0\<close> adds no field.
\<close>

definition lengthGuard :: "'a list option \<Rightarrow> bool" where
  "lengthGuard xs = (case xs of None \<Rightarrow> (0::int) > 0 | Some ys \<Rightarrow> length ys \<noteq> 0)"

text \<open>
  \<^verbatim>\<open>xs.map(f)[0]\<close>: every row is parsed, the first is kept. The guard makes the list
  non-empty wherever this is called; on an empty list JavaScript gives \<^verbatim>\<open>undefined\<close>.
\<close>

definition firstOf :: "'a list \<Rightarrow> 'a option" where
  "firstOf xs = (case xs of [] \<Rightarrow> None | x # _ \<Rightarrow> Some x)"

definition parseSuccessful ::
  "'x codec \<Rightarrow> 'c raw_simulate_transaction \<Rightarrow> 'x base_simulate_transaction \<Rightarrow>
     ('x, 'c) simulate_transaction result" where
  "parseSuccessful cdc sim partial =
     bindE (sorobanDataOf cdc (rsim_transactionData sim)) (\<lambda>transactionData.
     bindE (if lengthGuard (rsim_results sim)
            then bindE (mapE (parseResultRow cdc)
                          (case rsim_results sim of None \<Rightarrow> [] | Some rows \<Rightarrow> rows))
                   (\<lambda>rows. Inr (firstOf rows))
            else Inr None) (\<lambda>res.
     bindE (if lengthGuard (rsim_stateChanges sim)
            then bindE (mapE (parseEntryChange cdc)
                          (case rsim_stateChanges sim of None \<Rightarrow> [] | Some cs \<Rightarrow> cs))
                   (\<lambda>cs. Inr (Some cs))
            else Inr None) (\<lambda>stateChanges.
       let success = \<lparr>ss_transactionData = transactionData,
                      ss_minResourceFee = rsim_minResourceFee sim,
                      ss_cost = rsim_cost sim,
                      ss_result = res,
                      ss_stateChanges = stateChanges\<rparr>
       in case rsim_restorePreamble sim of
            None \<Rightarrow> Inr (SuccessResponse partial success)
          | Some preamble \<Rightarrow>
              if rrp_transactionData preamble = [] then Inr (SuccessResponse partial success)
              else
                bindE (sorobanDataOf cdc (Some (rrp_transactionData preamble))) (\<lambda>data.
                  Inr (RestoreResponse partial success
                         \<lparr>rp_minResourceFee = rrp_minResourceFee preamble,
                          rp_transactionData = data\<rparr>)))))"

text \<open>
  The argument of \<^verbatim>\<open>parseRawSimulation\<close> has the type
  \<^verbatim>\<open>Api.SimulateTransactionResponse | Api.RawSimulateTransactionResponse\<close>.
\<close>

datatype ('x, 'c) simulation_input =
  RawSimulation (theRaw: "'c raw_simulate_transaction")
  | ParsedSimulation (theParsed: "('x, 'c) simulate_transaction")

text \<open>The base fields of a parsed response, whatever its shape.\<close>

fun baseOf :: "('x, 'c) simulate_transaction \<Rightarrow> 'x base_simulate_transaction" where
  "baseOf (ErrorResponse b _) = b"
| "baseOf (SuccessResponse b _) = b"
| "baseOf (RestoreResponse b _ _) = b"

text \<open>
  The \<^verbatim>\<open>_parsed\<close> field of the argument, as a field read finds it: a raw response has no
  such field (\<^verbatim>\<open>undefined\<close>, here \<open>None\<close>), a parsed one has it among its base fields.
\<close>

fun parsedMarker :: "('x, 'c) simulation_input \<Rightarrow> bool option" where
  "parsedMarker (RawSimulation _) = None"
| "parsedMarker (ParsedSimulation p) = Some (bs_parsed (baseOf p))"

text \<open>
  Modelled from the spec: \<^verbatim>\<open>Api.isSimulationRaw\<close> (\<^verbatim>\<open>api.ts\<close>, not among the sources), the
  shape-detection predicate of the entry point. It inspects the fields of its argument
  for the parsed-marker that every parsed response carries among its base fields: an
  argument looks raw unless it has the marker and the marker is true. Nothing else tells
  the two forms apart: where the predicate holds the source reads the fields of its
  argument as those of a raw response (\<open>theRaw\<close>), and elsewhere it returns the argument.
  The parser writes the marker as \<^verbatim>\<open>true\<close> into every response it builds; of an object of
  the parsed shape whose marker is false the model fixes nothing but that it is read as a
  raw response.
\<close>

definition isSimulationRaw :: "('x, 'c) simulation_input \<Rightarrow> bool" where
  "isSimulationRaw sim \<longleftrightarrow> parsedMarker sim \<noteq> Some True"

definition parseRawSimulation ::
  "'x codec \<Rightarrow> ('x, 'c) simulation_input \<Rightarrow> ('x, 'c) simulate_transaction result" where
  "parseRawSimulation cdc sim =
     (let looksRaw = isSimulationRaw sim
      in if \<not> looksRaw then Inr (theParsed sim)
         else
           bindE (case rsim_events (theRaw sim) of
                    None \<Rightarrow> Inr []
                  | Some evts \<Rightarrow> mapE (decode cdc DiagnosticEvent) evts) (\<lambda>events.
             let base = \<lparr>bs_parsed = True,
                         bs_id = rsim_id (theRaw sim),
                         bs_latestLedger = rsim_latestLedger (theRaw sim),
                         bs_events = events\<rparr>
             in case rsim_error (theRaw sim) of
                  Some err \<Rightarrow> Inr (ErrorResponse base err)
                | None \<Rightarrow> parseSuccessful cdc (theRaw sim) base))"

section \<open>A concrete codec and concrete responses\<close>

text \<open>
  The theorems below hold for every codec. To evaluate the parsers on concrete responses
  one codec is fixed here: it rejects the empty payload, keeps every other payload as
  written next to its XDR type, and reads a transaction meta as version 3 when its payload
  starts with \<open>3\<close>, with soroban meta unless the payload is just \<open>3\<close>.
\<close>

datatype sample_object =
  XdrObject xdr_type string
  | ContractObject string
  | DataBuilderObject "string option"
  | SorobanMetaObject string
  | VoidObject

definition sample_codec :: "sample_object codec" where
  "sample_codec =
     \<lparr>fromXDR = (\<lambda>ty s. if s = [] then None else Some (XdrObject ty s)),
      newContract = (\<lambda>s. Some (ContractObject s)),
      newSorobanDataBuilder = (\<lambda>s. Some (DataBuilderObject s)),
      scvVoid = VoidObject,
      metaSwitch = (\<lambda>m. case m of XdrObject _ (c # _) \<Rightarrow> (if c = CHR ''3'' then 3 else 0)
                            | _ \<Rightarrow> 0),
      metaV3SorobanMeta = (\<lambda>m. case m of XdrObject _ (_ # c # cs) \<Rightarrow> Some (SorobanMetaObject (c # cs))
                                   | _ \<Rightarrow> None),
      sorobanReturnValue = (\<lambda>s. case s of SorobanMetaObject r \<Rightarrow> XdrObject ScVal r
                                    | _ \<Rightarrow> VoidObject)\<rparr>"

definition sample_send_error :: "(string \<times> string) raw_send_transaction" where
  "sample_send_error =
     \<lparr>errorResultXdr = Some ''AAAA'', diagnosticEventsXdr = Some [],
      rs_rest = (''ERROR'', ''c0ffee'')\<rparr>"

definition sample_entry_good :: raw_ledger_entry where
  "sample_entry_good =
     \<lparr>rle_lastModifiedLedgerSeq = Some 7, rle_key = Some ''KEY1'', rle_xdr = Some ''VAL1'',
      rle_liveUntilLedgerSeq = None\<rparr>"

definition sample_entry_no_key :: raw_ledger_entry where
  "sample_entry_no_key =
     \<lparr>rle_lastModifiedLedgerSeq = Some 8, rle_key = None, rle_xdr = Some ''VAL2'',
      rle_liveUntilLedgerSeq = Some 90\<rparr>"

definition sample_ledger_entries :: raw_get_ledger_entries where
  "sample_ledger_entries =
     \<lparr>rgl_latestLedger = 100, rgl_entries = Some [sample_entry_good, sample_entry_no_key]\<rparr>"

text \<open>
  A second codec: it also rejects every payload that starts with an exclamation mark, a
  character that no base64 text contains.
\<close>

definition strict_codec :: "sample_object codec" where
  "strict_codec =
     sample_codec
       \<lparr>fromXDR := (\<lambda>ty s. case s of
                                [] \<Rightarrow> None
                              | c # _ \<Rightarrow> if c = CHR ''!'' then None else Some (XdrObject ty s))\<rparr>"

definition sample_entry_undecodable :: raw_ledger_entry where
  "sample_entry_undecodable =
     \<lparr>rle_lastModifiedLedgerSeq = Some 6, rle_key = Some ''!KEY'', rle_xdr = Some ''VAL0'',
      rle_liveUntilLedgerSeq = None\<rparr>"

definition sample_ledger_entries_undecodable :: raw_get_ledger_entries where
  "sample_ledger_entries_undecodable =
     \<lparr>rgl_latestLedger = 100,
      rgl_entries = Some [sample_entry_undecodable, sample_entry_no_key]\<rparr>"

definition sample_no_entries :: raw_get_ledger_entries where
  "sample_no_entries = \<lparr>rgl_latestLedger = 100, rgl_entries = None\<rparr>"

definition sample_no_events :: "unit raw_get_events" where
  "sample_no_events = \<lparr>rge_latestLedger = 100, rge_events = None\<rparr>"

definition sample_event_scoped :: "string raw_event" where
  "sample_event_scoped =
     \<lparr>re_contractId = ''CABC'', re_topic = [''T1'', ''T2''], re_value = ''V1'',
      re_rest = ''0001''\<rparr>"

definition sample_event_unscoped :: "string raw_event" where
  "sample_event_unscoped =
     \<lparr>re_contractId = [], re_topic = [''T3''], re_value = ''V2'', re_rest = ''0002''\<rparr>"

definition sample_events :: "string raw_get_events" where
  "sample_events =
     \<lparr>rge_latestLedger = 100, rge_events = Some [sample_event_scoped, sample_event_unscoped]\<rparr>"

definition sample_transaction_info :: raw_transaction_info where
  "sample_transaction_info =
     \<lparr>rti_status = ''SUCCESS'', rti_ledger = Some 42, rti_createdAt = Some 1700000000,
      rti_applicationOrder = Some 1, rti_feeBump = Some False,
      rti_envelopeXdr = Some ''ENV'', rti_resultXdr = Some ''RES'',
      rti_resultMetaXdr = Some ''3RET'', rti_diagnosticEventsXdr = None\<rparr>"

section \<open>Reading a parsed simulation\<close>

text \<open>
  The success fields that the \<open>Success\<close> and the \<open>Restore\<close> shape share (an error response
  has none).
\<close>

fun successOf :: "('x, 'c) simulate_transaction \<Rightarrow> ('x, 'c) simulate_success option" where
  "successOf (ErrorResponse _ _) = None"
| "successOf (SuccessResponse _ s) = Some s"
| "successOf (RestoreResponse _ s _) = Some s"

text \<open>
  The library calls that \<^verbatim>\<open>parseRawSimulation\<close> makes on a raw response, in the order of the
  source, each required to return: the diagnostic events; then, unless the response is an
  error, the transaction data, the authorization entries and the non-empty return value
  of every result row, the key and the non-empty snapshots of every state change, and the
  data of a restore preamble that has some.
\<close>

definition acceptsOptional :: "'x codec \<Rightarrow> xdr_type \<Rightarrow> string option \<Rightarrow> bool" where
  "acceptsOptional cdc ty s =
     (case s of None \<Rightarrow> True | Some x \<Rightarrow> x = [] \<or> fromXDR cdc ty x \<noteq> None)"

definition acceptsRow :: "'x codec \<Rightarrow> raw_simulate_result \<Rightarrow> bool" where
  "acceptsRow cdc row \<longleftrightarrow>
     (\<forall>entry \<in> set (case rsr_auth row of None \<Rightarrow> [] | Some entries \<Rightarrow> entries).
        fromXDR cdc SorobanAuthorizationEntry entry \<noteq> None)
     \<and> acceptsOptional cdc ScVal (rsr_xdr row)"

definition acceptsChange :: "'x codec \<Rightarrow> raw_ledger_entry_change \<Rightarrow> bool" where
  "acceptsChange cdc c \<longleftrightarrow>
     fromXDR cdc LedgerKey (rlc_key c) \<noteq> None
     \<and> acceptsOptional cdc LedgerEntry (rlc_before c)
     \<and> acceptsOptional cdc LedgerEntry (rlc_after c)"

definition libraryAccepts :: "'x codec \<Rightarrow> 'c raw_simulate_transaction \<Rightarrow> bool" where
  "libraryAccepts cdc sim \<longleftrightarrow>
     (\<forall>evt \<in> set (case rsim_events sim of None \<Rightarrow> [] | Some evts \<Rightarrow> evts).
        fromXDR cdc DiagnosticEvent evt \<noteq> None)
     \<and> (rsim_error sim = None \<longrightarrow>
          newSorobanDataBuilder cdc (rsim_transactionData sim) \<noteq> None
        \<and> (\<forall>row \<in> set (case rsim_results sim of None \<Rightarrow> [] | Some rows \<Rightarrow> rows).
              acceptsRow cdc row)
        \<and> (\<forall>c \<in> set (case rsim_stateChanges sim of None \<Rightarrow> [] | Some cs \<Rightarrow> cs).
              acceptsChange cdc c)
        \<and> (case rsim_restorePreamble sim of
              None \<Rightarrow> True
            | Some preamble \<Rightarrow>
                rrp_transactionData preamble = [] \<or>
                newSorobanDataBuilder cdc (Some (rrp_transactionData preamble)) \<noteq> None))"

subsection \<open>Concrete simulation responses\<close>

definition sample_simulation :: "string raw_simulate_transaction" where
  "sample_simulation =
     \<lparr>rsim_id = ''1'', rsim_latestLedger = 100, rsim_error = None,
      rsim_transactionData = Some ''DATA'', rsim_events = None,
      rsim_minResourceFee = Some ''100'',
      rsim_results = Some [\<lparr>rsr_auth = Some [], rsr_xdr = Some ''VOID''\<rparr>],
      rsim_cost = Some ''COST'',
      rsim_restorePreamble = Some \<lparr>rrp_minResourceFee = ''0'', rrp_transactionData = []\<rparr>,
      rsim_stateChanges = Some []\<rparr>"

definition sample_simulation_error :: "string raw_simulate_transaction" where
  "sample_simulation_error =
     \<lparr>rsim_id = ''2'', rsim_latestLedger = 100, rsim_error = Some ''host function trapped'',
      rsim_transactionData = None, rsim_events = Some [''EVT''],
      rsim_minResourceFee = None, rsim_results = None, rsim_cost = None,
      rsim_restorePreamble = None, rsim_stateChanges = None\<rparr>"

definition sample_simulation_restore :: "string raw_simulate_transaction" where
  "sample_simulation_restore =
     \<lparr>rsim_id = ''3'', rsim_latestLedger = 100, rsim_error = None,
      rsim_transactionData = Some ''DATA'', rsim_events = Some [],
      rsim_minResourceFee = Some ''100'',
      rsim_results = Some [\<lparr>rsr_auth = Some [''AUTH''], rsr_xdr = None\<rparr>],
      rsim_cost = Some ''COST'',
      rsim_restorePreamble =
        Some \<lparr>rrp_minResourceFee = ''55'', rrp_transactionData = ''RESTORE''\<rparr>,
      rsim_stateChanges =
        Some [\<lparr>rlc_type = 1, rlc_key = ''KEY'', rlc_before = None, rlc_after = Some ''NEW''\<rparr>]\<rparr>"

definition sample_simulation_changes :: "string raw_simulate_transaction" where
  "sample_simulation_changes =
     \<lparr>rsim_id = ''4'', rsim_latestLedger = 100, rsim_error = None,
      rsim_transactionData = Some ''DATA'', rsim_events = None,
      rsim_minResourceFee = Some ''100'', rsim_results = None, rsim_cost = None,
      rsim_restorePreamble = None,
      rsim_stateChanges =
        Some [\<lparr>rlc_type = 2, rlc_key = ''K1'', rlc_before = Some ''OLD'', rlc_after = Some ''NEW''\<rparr>,
              \<lparr>rlc_type = 1, rlc_key = ''K2'', rlc_before = None, rlc_after = Some ''ADD''\<rparr>,
              \<lparr>rlc_type = 3, rlc_key = ''K3'', rlc_before = Some ''DEL'', rlc_after = None\<rparr>]\<rparr>"

definition sample_parsed_error :: "(sample_object, string) simulate_transaction" where
  "sample_parsed_error =
     ErrorResponse
       \<lparr>bs_parsed = True, bs_id = ''2'', bs_latestLedger = 100,
        bs_events = [XdrObject DiagnosticEvent ''EVT'']\<rparr>
       ''host function trapped''"

section \<open>Facts about the error monad and the library boundary\<close>

lemma bindE_Inl [simp]: "bindE (Inl e) f = Inl e"
  by (simp add: bindE_def)

lemma bindE_Inr [simp]: "bindE (Inr v) f = f v"
  by (simp add: bindE_def)

lemma bindE_eq_Inr: "bindE m f = Inr y \<longleftrightarrow> (\<exists>v. m = Inr v \<and> f v = Inr y)"
  by (cases m) simp_all

lemma bindE_eq_Inl: "bindE m f = Inl e \<longleftrightarrow> m = Inl e \<or> (\<exists>v. m = Inr v \<and> f v = Inl e)"
  by (cases m) simp_all

lemma ex_bindE_Inr: "(\<exists>y. bindE m f = Inr y) \<longleftrightarrow> (\<exists>v. m = Inr v \<and> (\<exists>y. f v = Inr y))"
  by (cases m) simp_all

lemma mapE_eq_Inr: "mapE f xs = Inr ys \<longleftrightarrow> list_all2 (\<lambda>x y. f x = Inr y) xs ys"
proof (induction xs arbitrary: ys)
  case Nil
  show ?case by auto
next
  case (Cons x xs)
  show ?case
  proof (cases "f x")
    case (Inl e)
    then show ?thesis by (auto simp: list_all2_Cons1)
  next
    case (Inr y)
    then show ?thesis
      using Cons.IH by (cases "mapE f xs") (auto simp: list_all2_Cons1)
  qed
qed

lemma mapE_length: "mapE f xs = Inr ys \<Longrightarrow> length ys = length xs"
  by (simp add: mapE_eq_Inr list_all2_lengthD)

lemma mapE_nth: "mapE f xs = Inr ys \<Longrightarrow> i < length xs \<Longrightarrow> f (xs ! i) = Inr (ys ! i)"
  by (auto simp: mapE_eq_Inr dest: list_all2_nthD)

lemma mapE_total: "(\<exists>ys. mapE f xs = Inr ys) \<longleftrightarrow> (\<forall>x \<in> set xs. \<exists>y. f x = Inr y)"
proof (induction xs)
  case Nil
  show ?case by simp
next
  case (Cons x xs)
  show ?case
  proof (cases "f x")
    case (Inl e)
    then show ?thesis by auto
  next
    case (Inr y)
    then show ?thesis
      using Cons.IH by (cases "mapE f xs") auto
  qed
qed

lemma mapE_first_failure:
  "\<forall>p \<in> set pre. \<exists>v. f p = Inr v \<Longrightarrow> f x = Inl e \<Longrightarrow> mapE f (pre @ x # post) = Inl e"
proof (induction pre)
  case Nil
  then show ?case by simp
next
  case (Cons p pre)
  then obtain v where "f p = Inr v" by auto
  with Cons show ?case by simp
qed

lemma mapE_failure_origin: "mapE f xs = Inl e \<Longrightarrow> \<exists>x \<in> set xs. f x = Inl e"
proof (induction xs)
  case Nil
  then show ?case by simp
next
  case (Cons x xs)
  then show ?case
    by (cases "f x"; cases "mapE f xs") auto
qed

lemma decode_eq_Inr [simp]: "decode cdc ty s = Inr v \<longleftrightarrow> fromXDR cdc ty s = Some v"
  by (simp add: decode_def split: option.splits)

lemma decodeRequired_eq_Inr [simp]:
  "decodeRequired cdc ty s = Inr v \<longleftrightarrow> (\<exists>t. s = Some t \<and> fromXDR cdc ty t = Some v)"
  by (cases s) (simp_all add: decodeRequired_def)

lemma contractOf_eq_Inr [simp]: "contractOf cdc s = Inr c \<longleftrightarrow> newContract cdc s = Some c"
  by (simp add: contractOf_def split: option.splits)

lemma sorobanDataOf_eq_Inr [simp]:
  "sorobanDataOf cdc s = Inr b \<longleftrightarrow> newSorobanDataBuilder cdc s = Some b"
  by (simp add: sorobanDataOf_def split: option.splits)

lemma list_all2_Some_conv_map:
  "list_all2 (\<lambda>x y. g x = Some y) xs ys \<longleftrightarrow> map g xs = map Some ys"
  by (induction xs arbitrary: ys) (auto simp: list_all2_Cons1 Cons_eq_map_conv)

lemma mapE_decode_eq_Inr:
  "mapE (decode cdc ty) xs = Inr ys \<longleftrightarrow> map (fromXDR cdc ty) xs = map Some ys"
  by (simp add: mapE_eq_Inr list_all2_Some_conv_map)

lemma mapE_decode_total:
  "(\<exists>ys. mapE (decode cdc ty) xs = Inr ys) \<longleftrightarrow> (\<forall>x \<in> set xs. fromXDR cdc ty x \<noteq> None)"
  by (simp add: mapE_total)

lemma truthy_simps [simp]:
  "truthy None = False" "truthy (Some s) = (s \<noteq> [])"
  by (simp_all add: truthy_def)

section \<open>Facts about the simulation parser\<close>

lemma lengthGuard_simps [simp]:
  "lengthGuard None = False" "lengthGuard (Some xs) = (xs \<noteq> [])"
  by (simp_all add: lengthGuard_def)

lemma parseResultRow_eq_Inr:
  "parseResultRow cdc row = Inr res \<longleftrightarrow>
     map (fromXDR cdc SorobanAuthorizationEntry)
       (case rsr_auth row of None \<Rightarrow> [] | Some entries \<Rightarrow> entries) = map Some (hr_auth res)
     \<and> (if truthy (rsr_xdr row)
        then \<exists>x. rsr_xdr row = Some x \<and> fromXDR cdc ScVal x = Some (hr_retval res)
        else hr_retval res = scvVoid cdc)"
  by (cases res) (auto simp: parseResultRow_def bindE_eq_Inr mapE_decode_eq_Inr)

lemma parseSnapshot_eq_Inr:
  "parseSnapshot cdc s = Inr v \<longleftrightarrow>
     (if truthy s then \<exists>x e. s = Some x \<and> fromXDR cdc LedgerEntry x = Some e \<and> v = Some e
      else v = None)"
  by (auto simp: parseSnapshot_def bindE_eq_Inr)

lemma parseEntryChange_eq_Inr:
  "parseEntryChange cdc c = Inr p \<longleftrightarrow>
     lc_type p = rlc_type c
     \<and> fromXDR cdc LedgerKey (rlc_key c) = Some (lc_key p)
     \<and> parseSnapshot cdc (rlc_before c) = Inr (lc_before p)
     \<and> parseSnapshot cdc (rlc_after c) = Inr (lc_after p)"
  by (cases p) (auto simp: parseEntryChange_def bindE_eq_Inr)

lemma mapE_Cons_eq_Inr:
  "mapE f (x # xs) = Inr v \<longleftrightarrow> (\<exists>y ys. f x = Inr y \<and> mapE f xs = Inr ys \<and> v = y # ys)"
  by (cases "f x"; cases "mapE f xs") auto

lemma coalesced_result_eq_Inr:
  "(if lengthGuard rs
    then bindE (mapE f (case rs of None \<Rightarrow> [] | Some rows \<Rightarrow> rows)) (\<lambda>rows. Inr (firstOf rows))
    else Inr None) = Inr res \<longleftrightarrow>
   (case rs of
      None \<Rightarrow> res = None
    | Some [] \<Rightarrow> res = None
    | Some (row # others) \<Rightarrow> \<exists>y ys. f row = Inr y \<and> mapE f others = Inr ys \<and> res = Some y)"
proof (cases rs)
  case None
  then show ?thesis by auto
next
  case (Some rows)
  then show ?thesis
    by (cases rows) (auto simp: bindE_eq_Inr firstOf_def mapE_Cons_eq_Inr simp del: mapE.simps(2))
qed

lemma coalesced_changes_eq_Inr:
  "(if lengthGuard cs
    then bindE (mapE f (case cs of None \<Rightarrow> [] | Some xs \<Rightarrow> xs)) (\<lambda>ys. Inr (Some ys))
    else Inr None) = Inr res \<longleftrightarrow>
   (case cs of
      None \<Rightarrow> res = None
    | Some [] \<Rightarrow> res = None
    | Some (x # xs) \<Rightarrow> \<exists>ys. mapE f (x # xs) = Inr ys \<and> res = Some ys)"
  by (auto simp: bindE_eq_Inr split: option.splits list.splits)

lemma parseSuccessful_eq_Inr:
  "parseSuccessful cdc sim partial = Inr out \<longleftrightarrow>
     (\<exists>s. newSorobanDataBuilder cdc (rsim_transactionData sim) = Some (ss_transactionData s)
        \<and> ss_minResourceFee s = rsim_minResourceFee sim
        \<and> ss_cost s = rsim_cost sim
        \<and> (case rsim_results sim of
              None \<Rightarrow> ss_result s = None
            | Some [] \<Rightarrow> ss_result s = None
            | Some (row # others) \<Rightarrow>
                \<exists>y ys. parseResultRow cdc row = Inr y \<and> mapE (parseResultRow cdc) others = Inr ys \<and>
                       ss_result s = Some y)
        \<and> (case rsim_stateChanges sim of
              None \<Rightarrow> ss_stateChanges s = None
            | Some [] \<Rightarrow> ss_stateChanges s = None
            | Some (x # xs) \<Rightarrow>
                \<exists>ys. mapE (parseEntryChange cdc) (x # xs) = Inr ys \<and> ss_stateChanges s = Some ys)
        \<and> (case rsim_restorePreamble sim of
              None \<Rightarrow> out = SuccessResponse partial s
            | Some preamble \<Rightarrow>
                if rrp_transactionData preamble = [] then out = SuccessResponse partial s
                else \<exists>data. newSorobanDataBuilder cdc (Some (rrp_transactionData preamble)) = Some data \<and>
                       out = RestoreResponse partial s
                               \<lparr>rp_minResourceFee = rrp_minResourceFee preamble,
                                rp_transactionData = data\<rparr>))"
  (is "?l \<longleftrightarrow> ?r")
proof
  assume ?l
  then obtain td res sc where
    td: "newSorobanDataBuilder cdc (rsim_transactionData sim) = Some td"
    and res: "(if lengthGuard (rsim_results sim)
            then bindE (mapE (parseResultRow cdc)
                          (case rsim_results sim of None \<Rightarrow> [] | Some rows \<Rightarrow> rows))
                   (\<lambda>rows. Inr (firstOf rows))
            else Inr None) = Inr res"
    and sc: "(if lengthGuard (rsim_stateChanges sim)
            then bindE (mapE (parseEntryChange cdc)
                          (case rsim_stateChanges sim of None \<Rightarrow> [] | Some cs \<Rightarrow> cs))
                   (\<lambda>cs. Inr (Some cs))
            else Inr None) = Inr sc"
    and out: "(case rsim_restorePreamble sim of
            None \<Rightarrow> Inr (SuccessResponse partial \<lparr>ss_transactionData = td,
                      ss_minResourceFee = rsim_minResourceFee sim,
                      ss_cost = rsim_cost sim,
                      ss_result = res,
                      ss_stateChanges = sc\<rparr>)
          | Some preamble \<Rightarrow>
              if rrp_transactionData preamble = [] then Inr (SuccessResponse partial \<lparr>ss_transactionData = td,
                      ss_minResourceFee = rsim_minResourceFee sim,
                      ss_cost = rsim_cost sim,
                      ss_result = res,
                      ss_stateChanges = sc\<rparr>)
              else
                bindE (sorobanDataOf cdc (Some (rrp_transactionData preamble))) (\<lambda>data.
                  Inr (RestoreResponse partial \<lparr>ss_transactionData = td,
                      ss_minResourceFee = rsim_minResourceFee sim,
                      ss_cost = rsim_cost sim,
                      ss_result = res,
                      ss_stateChanges = sc\<rparr>
                         \<lparr>rp_minResourceFee = rrp_minResourceFee preamble,
                          rp_transactionData = data\<rparr>))) = Inr out"
    unfolding parseSuccessful_def Let_def bindE_eq_Inr sorobanDataOf_eq_Inr by blast
  let ?s = "\<lparr>ss_transactionData = td,
                      ss_minResourceFee = rsim_minResourceFee sim,
                      ss_cost = rsim_cost sim,
                      ss_result = res,
                      ss_stateChanges = sc\<rparr>"
  show ?r
    apply (rule exI [of _ ?s])
    using td res [unfolded coalesced_result_eq_Inr] sc [unfolded coalesced_changes_eq_Inr] out
    by (auto simp: bindE_eq_Inr split: option.splits list.splits if_splits)
next
  assume ?r
  then obtain s where s: "newSorobanDataBuilder cdc (rsim_transactionData sim) = Some (ss_transactionData s)"
        "ss_minResourceFee s = rsim_minResourceFee sim"
        "ss_cost s = rsim_cost sim"
    and res: "(case rsim_results sim of
              None \<Rightarrow> ss_result s = None
            | Some [] \<Rightarrow> ss_result s = None
            | Some (row # others) \<Rightarrow>
                \<exists>y ys. parseResultRow cdc row = Inr y \<and> mapE (parseResultRow cdc) others = Inr ys \<and>
                       ss_result s = Some y)"
    and sc: "(case rsim_stateChanges sim of
              None \<Rightarrow> ss_stateChanges s = None
            | Some [] \<Rightarrow> ss_stateChanges s = None
            | Some (x # xs) \<Rightarrow>
                \<exists>ys. mapE (parseEntryChange cdc) (x # xs) = Inr ys \<and> ss_stateChanges s = Some ys)"
    and out: "(case rsim_restorePreamble sim of
              None \<Rightarrow> out = SuccessResponse partial s
            | Some preamble \<Rightarrow>
                if rrp_transactionData preamble = [] then out = SuccessResponse partial s
                else \<exists>data. newSorobanDataBuilder cdc (Some (rrp_transactionData preamble)) = Some data \<and>
                       out = RestoreResponse partial s
                               \<lparr>rp_minResourceFee = rrp_minResourceFee preamble,
                                rp_transactionData = data\<rparr>)"
    by blast
  have s_eq: "\<lparr>ss_transactionData = ss_transactionData s,
                      ss_minResourceFee = rsim_minResourceFee sim,
                      ss_cost = rsim_cost sim,
                      ss_result = ss_result s,
                      ss_stateChanges = ss_stateChanges s\<rparr> = s"
    using s by (cases s) simp
  show ?l
    unfolding parseSuccessful_def Let_def bindE_eq_Inr sorobanDataOf_eq_Inr
    apply (rule exI [of _ "ss_transactionData s"], rule conjI [OF s(1)])
    apply (rule exI [of _ "ss_result s"], rule conjI)
     apply (simp only: coalesced_result_eq_Inr res)
    apply (rule exI [of _ "ss_stateChanges s"], rule conjI)
     apply (simp only: coalesced_changes_eq_Inr sc)
    using out by (auto simp: s_eq bindE_eq_Inr split: option.splits)
qed

lemma parseRawSimulation_raw:
  "parseRawSimulation cdc (RawSimulation sim) =
     bindE (case rsim_events sim of
              None \<Rightarrow> Inr []
            | Some evts \<Rightarrow> mapE (decode cdc DiagnosticEvent) evts) (\<lambda>events.
       case rsim_error sim of
         Some err \<Rightarrow> Inr (ErrorResponse \<lparr>bs_parsed = True, bs_id = rsim_id sim,
                         bs_latestLedger = rsim_latestLedger sim, bs_events = events\<rparr> err)
       | None \<Rightarrow> parseSuccessful cdc sim \<lparr>bs_parsed = True, bs_id = rsim_id sim,
                         bs_latestLedger = rsim_latestLedger sim, bs_events = events\<rparr>)"
  by (simp add: parseRawSimulation_def isSimulationRaw_def Let_def cong: option.case_cong)

lemma parseRawSimulation_parsed:
  "bs_parsed (baseOf p) \<Longrightarrow> parseRawSimulation cdc (ParsedSimulation p) = Inr p"
  by (simp add: parseRawSimulation_def isSimulationRaw_def)

lemma parseRawSimulation_looks_raw:
  "isSimulationRaw x \<Longrightarrow>
     parseRawSimulation cdc x = parseRawSimulation cdc (RawSimulation (theRaw x))"
  by (simp add: parseRawSimulation_def isSimulationRaw_def Let_def cong: option.case_cong)

lemma not_isSimulationRaw_iff:
  "\<not> isSimulationRaw x \<longleftrightarrow> (\<exists>p. x = ParsedSimulation p \<and> bs_parsed (baseOf p))"
  by (cases x) (simp_all add: isSimulationRaw_def)

lemma parseRawSimulation_raw_eq_Inr:
  "parseRawSimulation cdc (RawSimulation sim) = Inr out \<longleftrightarrow>
     (\<exists>events.
        map (fromXDR cdc DiagnosticEvent)
          (case rsim_events sim of None \<Rightarrow> [] | Some evts \<Rightarrow> evts) = map Some events
        \<and> (case rsim_error sim of
              Some err \<Rightarrow> out = ErrorResponse \<lparr>bs_parsed = True, bs_id = rsim_id sim,
                           bs_latestLedger = rsim_latestLedger sim, bs_events = events\<rparr> err
            | None \<Rightarrow> parseSuccessful cdc sim \<lparr>bs_parsed = True, bs_id = rsim_id sim,
                           bs_latestLedger = rsim_latestLedger sim, bs_events = events\<rparr> = Inr out))"
  by (cases "rsim_events sim"; cases "rsim_error sim")
     (auto simp: parseRawSimulation_raw bindE_eq_Inr mapE_decode_eq_Inr)

lemma acceptsOptional_snapshot:
  "(\<exists>v. parseSnapshot cdc s = Inr v) \<longleftrightarrow> acceptsOptional cdc LedgerEntry s"
  by (cases s) (auto simp: parseSnapshot_def acceptsOptional_def ex_bindE_Inr)

lemma acceptsChange_iff: "(\<exists>p. parseEntryChange cdc c = Inr p) \<longleftrightarrow> acceptsChange cdc c"
  by (auto simp: parseEntryChange_def acceptsChange_def ex_bindE_Inr acceptsOptional_snapshot)

lemma acceptsRow_iff: "(\<exists>res. parseResultRow cdc row = Inr res) \<longleftrightarrow> acceptsRow cdc row"
proof -
  have auth: "(\<exists>ys. mapE (decode cdc SorobanAuthorizationEntry) xs = Inr ys) \<longleftrightarrow>
      (\<forall>x \<in> set xs. fromXDR cdc SorobanAuthorizationEntry x \<noteq> None)" for xs
    by (rule mapE_decode_total)
  show ?thesis
    by (cases "rsr_xdr row")
       (auto simp: parseResultRow_def acceptsRow_def acceptsOptional_def ex_bindE_Inr auth)
qed

lemma ex_coalesced_result:
  "(\<exists>res. (if lengthGuard rs
    then bindE (mapE f (case rs of None \<Rightarrow> [] | Some rows \<Rightarrow> rows)) (\<lambda>rows. Inr (firstOf rows))
    else Inr None) = Inr res) \<longleftrightarrow>
   (\<forall>row \<in> set (case rs of None \<Rightarrow> [] | Some rows \<Rightarrow> rows). \<exists>y. f row = Inr y)"
proof (cases rs)
  case None
  then show ?thesis by simp
next
  case (Some rows)
  have "(\<exists>ys. mapE f rows = Inr ys) \<longleftrightarrow> (\<forall>row \<in> set rows. \<exists>y. f row = Inr y)"
    by (rule mapE_total)
  with Some show ?thesis
    by (cases "rows = []") (auto simp: ex_bindE_Inr)
qed

lemma ex_coalesced_changes:
  "(\<exists>res. (if lengthGuard cs
    then bindE (mapE f (case cs of None \<Rightarrow> [] | Some xs \<Rightarrow> xs)) (\<lambda>ys. Inr (Some ys))
    else Inr None) = Inr res) \<longleftrightarrow>
   (\<forall>c \<in> set (case cs of None \<Rightarrow> [] | Some xs \<Rightarrow> xs). \<exists>y. f c = Inr y)"
proof (cases cs)
  case None
  then show ?thesis by simp
next
  case (Some xs)
  have "(\<exists>ys. mapE f xs = Inr ys) \<longleftrightarrow> (\<forall>c \<in> set xs. \<exists>y. f c = Inr y)"
    by (rule mapE_total)
  with Some show ?thesis
    by (cases "xs = []") (auto simp: ex_bindE_Inr)
qed

lemma ex_sorobanDataOf:
  "(\<exists>b. sorobanDataOf cdc s = Inr b) \<longleftrightarrow> newSorobanDataBuilder cdc s \<noteq> None"
  by auto

lemma parseSuccessful_total:
  "(\<exists>out. parseSuccessful cdc sim partial = Inr out) \<longleftrightarrow>
     newSorobanDataBuilder cdc (rsim_transactionData sim) \<noteq> None
     \<and> (\<forall>row \<in> set (case rsim_results sim of None \<Rightarrow> [] | Some rows \<Rightarrow> rows).
              acceptsRow cdc row)
     \<and> (\<forall>c \<in> set (case rsim_stateChanges sim of None \<Rightarrow> [] | Some cs \<Rightarrow> cs).
              acceptsChange cdc c)
     \<and> (case rsim_restorePreamble sim of
              None \<Rightarrow> True
            | Some preamble \<Rightarrow>
                rrp_transactionData preamble = [] \<or>
                newSorobanDataBuilder cdc (Some (rrp_transactionData preamble)) \<noteq> None)"
proof -
  have last: "(\<exists>out. (case rsim_restorePreamble sim of
            None \<Rightarrow> Inr (SuccessResponse partial s)
          | Some preamble \<Rightarrow>
              if rrp_transactionData preamble = [] then Inr (SuccessResponse partial s)
              else
                bindE (sorobanDataOf cdc (Some (rrp_transactionData preamble))) (\<lambda>data.
                  Inr (RestoreResponse partial s
                         \<lparr>rp_minResourceFee = rrp_minResourceFee preamble,
                          rp_transactionData = data\<rparr>))) = Inr out) \<longleftrightarrow>
      (case rsim_restorePreamble sim of
              None \<Rightarrow> True
            | Some preamble \<Rightarrow>
                rrp_transactionData preamble = [] \<or>
                newSorobanDataBuilder cdc (Some (rrp_transactionData preamble)) \<noteq> None)" for s
    by (cases "rsim_restorePreamble sim") (auto simp: ex_bindE_Inr)
  let ?T = "sorobanDataOf cdc (rsim_transactionData sim)"
  let ?R = "if lengthGuard (rsim_results sim)
            then bindE (mapE (parseResultRow cdc)
                          (case rsim_results sim of None \<Rightarrow> [] | Some rows \<Rightarrow> rows))
                   (\<lambda>rows. Inr (firstOf rows))
            else Inr None"
  let ?C = "if lengthGuard (rsim_stateChanges sim)
            then bindE (mapE (parseEntryChange cdc)
                          (case rsim_stateChanges sim of None \<Rightarrow> [] | Some cs \<Rightarrow> cs))
                   (\<lambda>cs. Inr (Some cs))
            else Inr None"
  let ?P = "case rsim_restorePreamble sim of
              None \<Rightarrow> True
            | Some preamble \<Rightarrow>
                rrp_transactionData preamble = [] \<or>
                newSorobanDataBuilder cdc (Some (rrp_transactionData preamble)) \<noteq> None"
  have "(\<exists>out. parseSuccessful cdc sim partial = Inr out) \<longleftrightarrow>
      (\<exists>td. ?T = Inr td \<and> (\<exists>res. ?R = Inr res \<and> (\<exists>sc. ?C = Inr sc \<and> ?P)))"
    unfolding parseSuccessful_def Let_def ex_bindE_Inr last ..
  also have "\<dots> \<longleftrightarrow> (\<exists>td. ?T = Inr td) \<and> (\<exists>res. ?R = Inr res) \<and> (\<exists>sc. ?C = Inr sc) \<and> ?P"
    by blast
  finally show ?thesis
    unfolding ex_coalesced_result ex_coalesced_changes acceptsRow_iff acceptsChange_iff
      ex_sorobanDataOf .
qed

lemma parseRawSimulation_total:
  "(\<exists>out. parseRawSimulation cdc (RawSimulation sim) = Inr out) \<longleftrightarrow> libraryAccepts cdc sim"
proof -
  have evs: "(\<exists>ys. mapE (decode cdc DiagnosticEvent) evts = Inr ys) \<longleftrightarrow>
      (\<forall>evt \<in> set evts. fromXDR cdc DiagnosticEvent evt \<noteq> None)" for evts
    by (rule mapE_decode_total)
  show ?thesis
    by (cases "rsim_events sim"; cases "rsim_error sim")
       (simp_all add: parseRawSimulation_raw ex_bindE_Inr parseSuccessful_total
          libraryAccepts_def evs)
qed

lemma parseSuccessful_Inr_D:
  assumes "parseSuccessful cdc sim partial = Inr out"
  shows "baseOf out = partial"
    and "\<exists>s. successOf out = Some s"
    and "(\<exists>b s p. out = RestoreResponse b s p) \<longleftrightarrow>
           (\<exists>pre. rsim_restorePreamble sim = Some pre \<and> rrp_transactionData pre \<noteq> [])"
    and "(\<exists>b s. out = SuccessResponse b s) \<longleftrightarrow>
           (\<forall>pre. rsim_restorePreamble sim = Some pre \<longrightarrow> rrp_transactionData pre = [])"
    and "\<forall>b err. out \<noteq> ErrorResponse b err"
    and "\<forall>b s p. out = RestoreResponse b s p \<longrightarrow>
           (\<exists>pre. rsim_restorePreamble sim = Some pre \<and>
                  rp_minResourceFee p = rrp_minResourceFee pre \<and>
                  newSorobanDataBuilder cdc (Some (rrp_transactionData pre)) =
                    Some (rp_transactionData p))"
  using assms unfolding parseSuccessful_eq_Inr
  by (auto split: option.splits if_splits)

lemma parseRawSimulation_marker:
  assumes "parseRawSimulation cdc (RawSimulation sim) = Inr y"
  shows "bs_parsed (baseOf y)"
proof -
  from assms obtain events where
    out: "case rsim_error sim of
            Some err \<Rightarrow> y = ErrorResponse \<lparr>bs_parsed = True, bs_id = rsim_id sim,
                         bs_latestLedger = rsim_latestLedger sim, bs_events = events\<rparr> err
          | None \<Rightarrow> parseSuccessful cdc sim \<lparr>bs_parsed = True, bs_id = rsim_id sim,
                         bs_latestLedger = rsim_latestLedger sim, bs_events = events\<rparr> = Inr y"
    unfolding parseRawSimulation_raw_eq_Inr by blast
  show ?thesis
  proof (cases "rsim_error sim")
    case (Some err)
    with out show ?thesis by simp
  next
    case None
    with out have "parseSuccessful cdc sim \<lparr>bs_parsed = True, bs_id = rsim_id sim,
        bs_latestLedger = rsim_latestLedger sim, bs_events = events\<rparr> = Inr y"
      by simp
    from parseSuccessful_Inr_D(1) [OF this] show ?thesis by simp
  qed
qed

lemma parseSuccessful_fields:
  assumes "parseSuccessful cdc sim partial = Inr out"
  shows "\<exists>s. successOf out = Some s
        \<and> newSorobanDataBuilder cdc (rsim_transactionData sim) = Some (ss_transactionData s)
        \<and> ss_minResourceFee s = rsim_minResourceFee sim
        \<and> ss_cost s = rsim_cost sim
        \<and> (case rsim_results sim of
              None \<Rightarrow> ss_result s = None
            | Some [] \<Rightarrow> ss_result s = None
            | Some (row # others) \<Rightarrow>
                \<exists>y ys. parseResultRow cdc row = Inr y \<and>
                       mapE (parseResultRow cdc) others = Inr ys \<and> ss_result s = Some y)
        \<and> (case rsim_stateChanges sim of
              None \<Rightarrow> ss_stateChanges s = None
            | Some [] \<Rightarrow> ss_stateChanges s = None
            | Some (x # xs) \<Rightarrow>
                \<exists>ys. mapE (parseEntryChange cdc) (x # xs) = Inr ys \<and> ss_stateChanges s = Some ys)"
proof -
  from assms obtain s where s:
    "newSorobanDataBuilder cdc (rsim_transactionData sim) = Some (ss_transactionData s)"
    "ss_minResourceFee s = rsim_minResourceFee sim"
    "ss_cost s = rsim_cost sim"
    "case rsim_results sim of
              None \<Rightarrow> ss_result s = None
            | Some [] \<Rightarrow> ss_result s = None
            | Some (row # others) \<Rightarrow>
                \<exists>y ys. parseResultRow cdc row = Inr y \<and>
                       mapE (parseResultRow cdc) others = Inr ys \<and> ss_result s = Some y"
    "case rsim_stateChanges sim of
              None \<Rightarrow> ss_stateChanges s = None
            | Some [] \<Rightarrow> ss_stateChanges s = None
            | Some (x # xs) \<Rightarrow>
                \<exists>ys. mapE (parseEntryChange cdc) (x # xs) = Inr ys \<and> ss_stateChanges s = Some ys"
    and out: "case rsim_restorePreamble sim of
              None \<Rightarrow> out = SuccessResponse partial s
            | Some preamble \<Rightarrow>
                if rrp_transactionData preamble = [] then out = SuccessResponse partial s
                else \<exists>data. newSorobanDataBuilder cdc (Some (rrp_transactionData preamble)) = Some data \<and>
                       out = RestoreResponse partial s
                               \<lparr>rp_minResourceFee = rrp_minResourceFee preamble,
                                rp_transactionData = data\<rparr>"
    unfolding parseSuccessful_eq_Inr by blast
  from out have "successOf out = Some s"
    by (auto split: option.splits if_splits)
  with s show ?thesis by blast
qed

lemma snapshot_facts:
  assumes "parseSnapshot cdc s = Inr v"
  shows "(v = None \<longleftrightarrow> \<not> truthy s) \<and> (\<forall>b. s = Some b \<and> b \<noteq> [] \<longrightarrow> v = fromXDR cdc LedgerEntry b)"
  using assms unfolding parseSnapshot_eq_Inr by (auto split: if_splits)

text \<open>The parser, run on the concrete responses.\<close>

lemma sample_simulation_parsed:
  "parseRawSimulation sample_codec (RawSimulation sample_simulation) =
     Inr (SuccessResponse
            \<lparr>bs_parsed = True, bs_id = ''1'', bs_latestLedger = 100, bs_events = []\<rparr>
            \<lparr>ss_transactionData = DataBuilderObject (Some ''DATA''),
             ss_minResourceFee = Some ''100'', ss_cost = Some ''COST'',
             ss_result = Some \<lparr>hr_auth = [], hr_retval = XdrObject ScVal ''VOID''\<rparr>,
             ss_stateChanges = None\<rparr>)"
  by (simp add: parseRawSimulation_raw parseSuccessful_def parseResultRow_def
        sample_simulation_def sample_codec_def sorobanDataOf_def decodeRequired_def decode_def
        firstOf_def Let_def)

lemma sample_simulation_error_parsed:
  "parseRawSimulation sample_codec (RawSimulation sample_simulation_error) =
     Inr (ErrorResponse
            \<lparr>bs_parsed = True, bs_id = ''2'', bs_latestLedger = 100,
             bs_events = [XdrObject DiagnosticEvent ''EVT'']\<rparr>
            ''host function trapped'')"
  by (simp add: parseRawSimulation_raw sample_simulation_error_def sample_codec_def decode_def)

lemma sample_simulation_restore_parsed:
  "parseRawSimulation sample_codec (RawSimulation sample_simulation_restore) =
     Inr (RestoreResponse
            \<lparr>bs_parsed = True, bs_id = ''3'', bs_latestLedger = 100, bs_events = []\<rparr>
            \<lparr>ss_transactionData = DataBuilderObject (Some ''DATA''),
             ss_minResourceFee = Some ''100'', ss_cost = Some ''COST'',
             ss_result = Some \<lparr>hr_auth = [XdrObject SorobanAuthorizationEntry ''AUTH''],
                               hr_retval = VoidObject\<rparr>,
             ss_stateChanges =
               Some [\<lparr>lc_type = 1, lc_key = XdrObject LedgerKey ''KEY'', lc_before = None,
                      lc_after = Some (XdrObject LedgerEntry ''NEW'')\<rparr>]\<rparr>
            \<lparr>rp_minResourceFee = ''55'',
             rp_transactionData = DataBuilderObject (Some ''RESTORE'')\<rparr>)"
  by (simp add: parseRawSimulation_raw parseSuccessful_def parseResultRow_def
        parseEntryChange_def parseSnapshot_def
        sample_simulation_restore_def sample_codec_def sorobanDataOf_def decodeRequired_def
        decode_def firstOf_def Let_def)

lemma sample_simulation_changes_parsed:
  "parseRawSimulation sample_codec (RawSimulation sample_simulation_changes) =
     Inr (SuccessResponse
            \<lparr>bs_parsed = True, bs_id = ''4'', bs_latestLedger = 100, bs_events = []\<rparr>
            \<lparr>ss_transactionData = DataBuilderObject (Some ''DATA''),
             ss_minResourceFee = Some ''100'', ss_cost = None,
             ss_result = None,
             ss_stateChanges =
               Some [\<lparr>lc_type = 2, lc_key = XdrObject LedgerKey ''K1'',
                      lc_before = Some (XdrObject LedgerEntry ''OLD''),
                      lc_after = Some (XdrObject LedgerEntry ''NEW'')\<rparr>,
                     \<lparr>lc_type = 1, lc_key = XdrObject LedgerKey ''K2'',
                      lc_before = None,
                      lc_after = Some (XdrObject LedgerEntry ''ADD'')\<rparr>,
                     \<lparr>lc_type = 3, lc_key = XdrObject LedgerKey ''K3'',
                      lc_before = Some (XdrObject LedgerEntry ''DEL''),
                      lc_after = None\<rparr>]\<rparr>)"
  by (simp add: parseRawSimulation_raw parseSuccessful_def
        parseEntryChange_def parseSnapshot_def
        sample_simulation_changes_def sample_codec_def sorobanDataOf_def decodeRequired_def
        decode_def Let_def)

section \<open>parseRawSendTransaction: the two shapes\<close>

lemma parseRawSendTransaction_Inr:
  "snd (parseRawSendTransaction cdc r) = Inr out \<longleftrightarrow>
     (if truthy (errorResultXdr r)
      then \<exists>ds er. (case diagnosticEventsXdr r of
                        None \<Rightarrow> ds = None
                      | Some evts \<Rightarrow>
                          if evts \<noteq> [] then \<exists>ys. map (fromXDR cdc DiagnosticEvent) evts = map Some ys \<and> ds = Some ys
                          else ds = None)
             \<and> (\<exists>t. errorResultXdr r = Some t \<and> fromXDR cdc TransactionResult t = Some er)
             \<and> out = \<lparr>st_errorResultXdr = None, st_diagnosticEventsXdr = None,
                      st_rest = rs_rest r, st_diagnosticEvents = ds, st_errorResult = Some er\<rparr>
      else out = \<lparr>st_errorResultXdr = None, st_diagnosticEventsXdr = None,
                  st_rest = rs_rest r, st_diagnosticEvents = None, st_errorResult = None\<rparr>)"
  by (auto simp: parseRawSendTransaction_def Let_def bindE_eq_Inr mapE_decode_eq_Inr
           split: option.splits)

text \<open>
  Claim C4. Whenever \<^verbatim>\<open>parseRawSendTransaction\<close> returns, its result has the error shape
  (an \<^verbatim>\<open>errorResult\<close>, the decoded raw field) exactly when the raw \<^verbatim>\<open>errorResultXdr\<close> is a
  non-empty string; otherwise it is the success shape, with neither \<^verbatim>\<open>errorResult\<close> nor
  \<^verbatim>\<open>diagnosticEvents\<close>. In both shapes the remaining fields are those of the raw response
  and the raw fields \<^verbatim>\<open>errorResultXdr\<close> and \<^verbatim>\<open>diagnosticEventsXdr\<close> are gone. The field
  \<^verbatim>\<open>diagnosticEvents\<close> is there exactly in the error shape of a response whose raw list of
  diagnostic events is present and non-empty, and then holds its events, decoded in order;
  for an empty raw list it is absent, not an empty list. The parser returns exactly when
  the library decodes what it is given: it always does for a response without an error
  result.
\<close>

theorem parseRawSendTransaction_shapes:
  "(snd (parseRawSendTransaction cdc r) = Inr out \<longrightarrow>
      (st_errorResult out \<noteq> None \<longleftrightarrow> truthy (errorResultXdr r))
    \<and> (\<forall>t. errorResultXdr r = Some t \<and> t \<noteq> [] \<longrightarrow>
          st_errorResult out = fromXDR cdc TransactionResult t)
    \<and> (\<not> truthy (errorResultXdr r) \<longrightarrow>
          st_errorResult out = None \<and> st_diagnosticEvents out = None)
    \<and> st_rest out = rs_rest r
    \<and> st_errorResultXdr out = None \<and> st_diagnosticEventsXdr out = None
    \<and> (st_diagnosticEvents out \<noteq> None \<longleftrightarrow>
          truthy (errorResultXdr r) \<and>
          (\<exists>evts. diagnosticEventsXdr r = Some evts \<and> evts \<noteq> []))
    \<and> (\<forall>ds. st_diagnosticEvents out = Some ds \<longrightarrow>
          (\<exists>evts. diagnosticEventsXdr r = Some evts \<and>
                  map (fromXDR cdc DiagnosticEvent) evts = map Some ds)))
   \<and> ((\<exists>res. snd (parseRawSendTransaction cdc r) = Inr res) \<longleftrightarrow>
        (\<forall>t. errorResultXdr r = Some t \<and> t \<noteq> [] \<longrightarrow>
           fromXDR cdc TransactionResult t \<noteq> None \<and>
           (\<forall>evts. diagnosticEventsXdr r = Some evts \<longrightarrow>
              (\<forall>evt \<in> set evts. fromXDR cdc DiagnosticEvent evt \<noteq> None))))"
proof (intro conjI impI)
  assume a: "snd (parseRawSendTransaction cdc r) = Inr out"
  note b = a [unfolded parseRawSendTransaction_Inr]
  show "st_errorResult out \<noteq> None \<longleftrightarrow> truthy (errorResultXdr r)"
    using b by (auto split: if_splits)
  show "\<forall>t. errorResultXdr r = Some t \<and> t \<noteq> [] \<longrightarrow>
          st_errorResult out = fromXDR cdc TransactionResult t"
    using b by (auto split: if_splits)
  show "st_rest out = rs_rest r" using b by (auto split: if_splits)
  show "st_errorResultXdr out = None" using b by (auto split: if_splits)
  show "st_diagnosticEventsXdr out = None" using b by (auto split: if_splits)
  show "st_diagnosticEvents out \<noteq> None \<longleftrightarrow>
          truthy (errorResultXdr r) \<and>
          (\<exists>evts. diagnosticEventsXdr r = Some evts \<and> evts \<noteq> [])"
    using b by (auto split: if_splits option.splits)
  show "\<forall>ds. st_diagnosticEvents out = Some ds \<longrightarrow>
          (\<exists>evts. diagnosticEventsXdr r = Some evts \<and>
                  map (fromXDR cdc DiagnosticEvent) evts = map Some ds)"
    using b by (auto split: if_splits option.splits)
  { assume "\<not> truthy (errorResultXdr r)"
    then show "st_errorResult out = None" using b by simp
  }
  { assume "\<not> truthy (errorResultXdr r)"
    then show "st_diagnosticEvents out = None" using b by simp
  }
next
  show "(\<exists>res. snd (parseRawSendTransaction cdc r) = Inr res) \<longleftrightarrow>
        (\<forall>t. errorResultXdr r = Some t \<and> t \<noteq> [] \<longrightarrow>
           fromXDR cdc TransactionResult t \<noteq> None \<and>
           (\<forall>evts. diagnosticEventsXdr r = Some evts \<longrightarrow>
              (\<forall>evt \<in> set evts. fromXDR cdc DiagnosticEvent evt \<noteq> None)))"
  proof (cases "truthy (errorResultXdr r)")
    case False
    then show ?thesis
      by (cases "errorResultXdr r") (auto simp: parseRawSendTransaction_def Let_def)
  next
    case True
    then obtain t where t: "errorResultXdr r = Some t" "t \<noteq> []"
      by (cases "errorResultXdr r") auto
    show ?thesis
    proof (cases "diagnosticEventsXdr r")
      case None
      with t show ?thesis
        by (auto simp: parseRawSendTransaction_def Let_def bindE_eq_Inr)
    next
      case (Some evts)
      have "(\<exists>ys. mapE (decode cdc DiagnosticEvent) evts = Inr ys) \<longleftrightarrow>
            (\<forall>evt \<in> set evts. fromXDR cdc DiagnosticEvent evt \<noteq> None)"
        by (rule mapE_decode_total)
      with t Some show ?thesis
        by (cases "evts = []")
           (auto simp: parseRawSendTransaction_def Let_def bindE_eq_Inr)
    qed
  qed
qed


theorem parseRawSendTransaction_shapes_witness:
  "snd (parseRawSendTransaction sample_codec sample_send_error) =
     Inr \<lparr>st_errorResultXdr = None, st_diagnosticEventsXdr = None,
          st_rest = (''ERROR'', ''c0ffee''), st_diagnosticEvents = None,
          st_errorResult = Some (XdrObject TransactionResult ''AAAA'')\<rparr>
   \<and> truthy (errorResultXdr sample_send_error)
   \<and> diagnosticEventsXdr sample_send_error = Some []"
proof -
  let ?out = "\<lparr>st_errorResultXdr = None, st_diagnosticEventsXdr = None,
          st_rest = (''ERROR'', ''c0ffee''), st_diagnosticEvents = None,
          st_errorResult = Some (XdrObject TransactionResult ''AAAA'')\<rparr>"
  have returns: "\<exists>res. snd (parseRawSendTransaction sample_codec sample_send_error) = Inr res"
    using parseRawSendTransaction_shapes [of sample_codec sample_send_error ?out]
    by (simp add: sample_codec_def sample_send_error_def)
  then obtain res where res: "snd (parseRawSendTransaction sample_codec sample_send_error) = Inr res"
    by blast
  have "st_errorResult res = Some (XdrObject TransactionResult ''AAAA'')"
    "st_diagnosticEvents res = None" "st_rest res = (''ERROR'', ''c0ffee'')"
    "st_errorResultXdr res = None" "st_diagnosticEventsXdr res = None"
    using parseRawSendTransaction_shapes [of sample_codec sample_send_error res] res
    by (simp_all add: sample_codec_def sample_send_error_def)
  then have "res = ?out" by (cases res) simp
  with res show ?thesis by (simp add: sample_send_error_def)
qed

text \<open>
  Claim C3. The parsers are meant to leave their argument as it was; \<^verbatim>\<open>parseRawEvents\<close>
  clones each event before deleting a field of the clone. \<^verbatim>\<open>parseRawSendTransaction\<close>
  deletes \<^verbatim>\<open>errorResultXdr\<close> and \<^verbatim>\<open>diagnosticEventsXdr\<close> from the argument itself: after
  the call on a response that carries an error result, the caller's object has lost both
  fields.
\<close>

theorem parseRawSendTransaction_changes_argument:
  "fst (parseRawSendTransaction sample_codec sample_send_error) =
     \<lparr>errorResultXdr = None, diagnosticEventsXdr = None, rs_rest = (''ERROR'', ''c0ffee'')\<rparr>
   \<and> fst (parseRawSendTransaction sample_codec sample_send_error) \<noteq> sample_send_error"
  by (simp add: parseRawSendTransaction_def sample_send_error_def Let_def)

section \<open>parseRawLedgerEntries: malformed entries, absent lists\<close>

lemma parseLedgerEntry_eq_Inr:
  "parseLedgerEntry cdc e = Inr v \<longleftrightarrow>
     (\<exists>k x. rle_key e = Some k \<and> k \<noteq> [] \<and> rle_xdr e = Some x \<and> x \<noteq> [] \<and>
            fromXDR cdc LedgerKey k = Some (le_key v) \<and>
            fromXDR cdc LedgerEntryData x = Some (le_val v) \<and>
            le_lastModifiedLedgerSeq v = rle_lastModifiedLedgerSeq e \<and>
            le_liveUntilLedgerSeq v = rle_liveUntilLedgerSeq e)"
  by (cases "rle_key e"; cases "rle_xdr e"; cases v)
     (auto simp: parseLedgerEntry_def bindE_eq_Inr)

lemma parseLedgerEntry_malformed:
  "\<not> truthy (rle_key e) \<or> \<not> truthy (rle_xdr e) \<Longrightarrow>
     parseLedgerEntry cdc e = Inl (InvalidLedgerEntry e)"
  by (simp add: parseLedgerEntry_def)

lemma parseLedgerEntry_Inl:
  "parseLedgerEntry cdc x = Inl err \<Longrightarrow>
     err = InvalidLedgerEntry x \<and> (\<not> truthy (rle_key x) \<or> \<not> truthy (rle_xdr x))
     \<or> err = DecodeFailure LedgerKey (rle_key x)
     \<or> err = DecodeFailure LedgerEntryData (rle_xdr x)"
  by (auto simp: parseLedgerEntry_def bindE_eq_Inl decodeRequired_def decode_def
           split: if_splits option.splits)

text \<open>
  Claim C5, as stated, fails: the entries are parsed in order and the first failure ends
  the call, so when an entry before the one without a \<^verbatim>\<open>key\<close> has a key that the library
  does not decode, the call fails with that decode failure, not with the malformed-entry
  error.
\<close>

theorem malformed_entry_after_undecodable_counterexample:
  "rgl_entries sample_ledger_entries_undecodable =
     Some [sample_entry_undecodable, sample_entry_no_key]
   \<and> rle_key sample_entry_no_key = None
   \<and> parseRawLedgerEntries strict_codec sample_ledger_entries_undecodable =
       Inl (DecodeFailure LedgerKey (Some ''!KEY''))
   \<and> parseRawLedgerEntries strict_codec sample_ledger_entries_undecodable \<noteq>
       Inl (InvalidLedgerEntry sample_entry_no_key)"
  by (simp add: parseRawLedgerEntries_def parseLedgerEntry_def decodeRequired_def decode_def
        sample_ledger_entries_undecodable_def sample_entry_undecodable_def
        sample_entry_no_key_def strict_codec_def sample_codec_def)

text \<open>
  A raw ledger-entries response with an entry whose \<^verbatim>\<open>key\<close> or
  \<^verbatim>\<open>xdr\<close> is missing is rejected as a whole: the parser fails and returns no partial
  result. The failure is the malformed-entry error carrying that raw entry whenever the
  entries before it are well-formed and decode. Whatever the failure, it is the
  malformed-entry error carrying an entry of the response that lacks a non-empty \<^verbatim>\<open>key\<close> or
  \<^verbatim>\<open>xdr\<close>, or the failure to decode the \<^verbatim>\<open>key\<close> or the \<^verbatim>\<open>xdr\<close> of an entry of the response.
\<close>

theorem parseRawLedgerEntries_malformed_entry:
  "rgl_entries raw = Some entries \<and> e \<in> set entries \<and> (rle_key e = None \<or> rle_xdr e = None) \<longrightarrow>
     (\<exists>err. parseRawLedgerEntries cdc raw = Inl err)
   \<and> (\<forall>pre post.
         entries = pre @ e # post \<and>
         (\<forall>p \<in> set pre. \<exists>k x. rle_key p = Some k \<and> k \<noteq> [] \<and> rle_xdr p = Some x \<and> x \<noteq> [] \<and>
                           fromXDR cdc LedgerKey k \<noteq> None \<and>
                           fromXDR cdc LedgerEntryData x \<noteq> None) \<longrightarrow>
         parseRawLedgerEntries cdc raw = Inl (InvalidLedgerEntry e))
   \<and> (\<forall>err. parseRawLedgerEntries cdc raw = Inl err \<longrightarrow>
         (\<exists>x \<in> set entries.
            err = InvalidLedgerEntry x \<and> (\<not> truthy (rle_key x) \<or> \<not> truthy (rle_xdr x))
            \<or> err = DecodeFailure LedgerKey (rle_key x)
            \<or> err = DecodeFailure LedgerEntryData (rle_xdr x)))"
proof (intro impI, elim conjE)
  assume entries: "rgl_entries raw = Some entries"
    and mem: "e \<in> set entries"
    and missing: "rle_key e = None \<or> rle_xdr e = None"
  have bad: "parseLedgerEntry cdc e = Inl (InvalidLedgerEntry e)"
    using missing by (auto intro: parseLedgerEntry_malformed)
  have whole: "parseRawLedgerEntries cdc raw =
      bindE (mapE (parseLedgerEntry cdc) entries)
        (\<lambda>es. Inr \<lparr>gl_latestLedger = rgl_latestLedger raw, gl_entries = es\<rparr>)"
    by (simp add: parseRawLedgerEntries_def entries)
  have fails: "\<exists>err. parseRawLedgerEntries cdc raw = Inl err"
  proof (cases "mapE (parseLedgerEntry cdc) entries")
    case (Inl err)
    then show ?thesis by (simp add: whole)
  next
    case (Inr es)
    then have "\<forall>x \<in> set entries. \<exists>y. parseLedgerEntry cdc x = Inr y"
      using mapE_total [of "parseLedgerEntry cdc" entries] by blast
    with mem bad show ?thesis by auto
  qed
  have first: "parseRawLedgerEntries cdc raw = Inl (InvalidLedgerEntry e)"
    if split: "entries = pre @ e # post"
      and pre: "\<forall>p \<in> set pre. \<exists>k x. rle_key p = Some k \<and> k \<noteq> [] \<and> rle_xdr p = Some x \<and> x \<noteq> [] \<and>
                           fromXDR cdc LedgerKey k \<noteq> None \<and>
                           fromXDR cdc LedgerEntryData x \<noteq> None"
    for pre post
  proof -
    have "\<forall>p \<in> set pre. \<exists>v. parseLedgerEntry cdc p = Inr v"
    proof
      fix p assume "p \<in> set pre"
      with pre obtain k x a b where
        "rle_key p = Some k" "k \<noteq> []" "rle_xdr p = Some x" "x \<noteq> []"
        "fromXDR cdc LedgerKey k = Some a" "fromXDR cdc LedgerEntryData x = Some b"
        by fastforce
      then have "parseLedgerEntry cdc p =
          Inr \<lparr>le_lastModifiedLedgerSeq = rle_lastModifiedLedgerSeq p, le_key = a, le_val = b,
               le_liveUntilLedgerSeq = rle_liveUntilLedgerSeq p\<rparr>"
        by (simp add: parseLedgerEntry_eq_Inr)
      then show "\<exists>v. parseLedgerEntry cdc p = Inr v" by blast
    qed
    then have "mapE (parseLedgerEntry cdc) (pre @ e # post) = Inl (InvalidLedgerEntry e)"
      using bad by (rule mapE_first_failure)
    then show ?thesis by (simp add: whole split)
  qed
  have origin: "\<exists>x \<in> set entries.
            err = InvalidLedgerEntry x \<and> (\<not> truthy (rle_key x) \<or> \<not> truthy (rle_xdr x))
            \<or> err = DecodeFailure LedgerKey (rle_key x)
            \<or> err = DecodeFailure LedgerEntryData (rle_xdr x)"
    if "parseRawLedgerEntries cdc raw = Inl err" for err
  proof -
    from that have "mapE (parseLedgerEntry cdc) entries = Inl err"
      by (auto simp: whole bindE_eq_Inl)
    then obtain x where "x \<in> set entries" "parseLedgerEntry cdc x = Inl err"
      by (blast dest: mapE_failure_origin)
    then show ?thesis
      by (blast dest: parseLedgerEntry_Inl)
  qed
  show "(\<exists>err. parseRawLedgerEntries cdc raw = Inl err)
   \<and> (\<forall>pre post.
         entries = pre @ e # post \<and>
         (\<forall>p \<in> set pre. \<exists>k x. rle_key p = Some k \<and> k \<noteq> [] \<and> rle_xdr p = Some x \<and> x \<noteq> [] \<and>
                           fromXDR cdc LedgerKey k \<noteq> None \<and>
                           fromXDR cdc LedgerEntryData x \<noteq> None) \<longrightarrow>
         parseRawLedgerEntries cdc raw = Inl (InvalidLedgerEntry e))
   \<and> (\<forall>err. parseRawLedgerEntries cdc raw = Inl err \<longrightarrow>
         (\<exists>x \<in> set entries.
            err = InvalidLedgerEntry x \<and> (\<not> truthy (rle_key x) \<or> \<not> truthy (rle_xdr x))
            \<or> err = DecodeFailure LedgerKey (rle_key x)
            \<or> err = DecodeFailure LedgerEntryData (rle_xdr x)))"
    using fails first origin by blast
qed

theorem parseRawLedgerEntries_malformed_entry_witness:
  "rgl_entries sample_ledger_entries = Some [sample_entry_good, sample_entry_no_key]
   \<and> rle_key sample_entry_no_key = None
   \<and> parseRawLedgerEntries sample_codec sample_ledger_entries =
       Inl (InvalidLedgerEntry sample_entry_no_key)"
proof -
  have hyp: "rgl_entries sample_ledger_entries = Some [sample_entry_good, sample_entry_no_key]
      \<and> sample_entry_no_key \<in> set [sample_entry_good, sample_entry_no_key]
      \<and> (rle_key sample_entry_no_key = None \<or> rle_xdr sample_entry_no_key = None)"
    by (simp add: sample_ledger_entries_def sample_entry_no_key_def)
  have before: "\<forall>p \<in> set [sample_entry_good].
      \<exists>k x. rle_key p = Some k \<and> k \<noteq> [] \<and> rle_xdr p = Some x \<and> x \<noteq> [] \<and>
            fromXDR sample_codec LedgerKey k \<noteq> None \<and>
            fromXDR sample_codec LedgerEntryData x \<noteq> None"
    by (simp add: sample_entry_good_def sample_codec_def)
  have "[sample_entry_good, sample_entry_no_key] = [sample_entry_good] @ sample_entry_no_key # []"
    by simp
  with hyp before
    parseRawLedgerEntries_malformed_entry
      [of sample_ledger_entries "[sample_entry_good, sample_entry_no_key]"
          sample_entry_no_key sample_codec]
  have "parseRawLedgerEntries sample_codec sample_ledger_entries =
          Inl (InvalidLedgerEntry sample_entry_no_key)"
    by blast
  with hyp show ?thesis by (simp add: sample_entry_no_key_def)
qed

text \<open>
  Claim C10. On a response whose \<^verbatim>\<open>events\<close> field is absent \<^verbatim>\<open>parseRawEvents\<close> does not
  fail: it returns the latest ledger with an empty list of events, whatever the codec. So
  does \<^verbatim>\<open>parseRawLedgerEntries\<close> on a response whose \<^verbatim>\<open>entries\<close> field is absent.
\<close>

theorem absent_list_parses_to_empty:
  "(rge_events r = None \<longrightarrow>
      parseRawEvents cdc r = Inr \<lparr>ge_latestLedger = rge_latestLedger r, ge_events = []\<rparr>)
   \<and> (rgl_entries raw = None \<longrightarrow>
      parseRawLedgerEntries cdc raw =
        Inr \<lparr>gl_latestLedger = rgl_latestLedger raw, gl_entries = []\<rparr>)"
  by (simp add: parseRawEvents_def parseRawLedgerEntries_def)


theorem absent_list_parses_to_empty_witness:
  "rge_events sample_no_events = None
   \<and> parseRawEvents sample_codec sample_no_events = Inr \<lparr>ge_latestLedger = 100, ge_events = []\<rparr>
   \<and> rgl_entries sample_no_entries = None
   \<and> parseRawLedgerEntries sample_codec sample_no_entries =
       Inr \<lparr>gl_latestLedger = 100, gl_entries = []\<rparr>"
  using absent_list_parses_to_empty [of sample_no_events sample_codec sample_no_entries]
  by (simp add: sample_no_events_def sample_no_entries_def)

section \<open>parseRawEvents: the contract identifier\<close>

lemma parseEvent_eq_Inr:
  "parseEvent cdc evt = Inr ev \<longleftrightarrow>
     (if re_contractId evt = [] then ev_contractId ev = None
      else \<exists>c. newContract cdc (re_contractId evt) = Some c \<and> ev_contractId ev = Some c)
     \<and> map (fromXDR cdc ScVal) (re_topic evt) = map Some (ev_topic ev)
     \<and> fromXDR cdc ScVal (re_value evt) = Some (ev_value ev)
     \<and> ev_rest ev = re_rest evt"
  by (cases ev) (auto simp: parseEvent_def bindE_eq_Inr mapE_decode_eq_Inr)

lemma parseEvent_total:
  "(\<exists>ev. parseEvent cdc evt = Inr ev) \<longleftrightarrow>
     (re_contractId evt \<noteq> [] \<longrightarrow> newContract cdc (re_contractId evt) \<noteq> None)
     \<and> (\<forall>t \<in> set (re_topic evt). fromXDR cdc ScVal t \<noteq> None)
     \<and> fromXDR cdc ScVal (re_value evt) \<noteq> None"
proof -
  have topics: "(\<exists>ys. mapE (decode cdc ScVal) (re_topic evt) = Inr ys) \<longleftrightarrow>
      (\<forall>t \<in> set (re_topic evt). fromXDR cdc ScVal t \<noteq> None)"
    by (rule mapE_decode_total)
  show ?thesis
    using topics
    by (cases "re_contractId evt = []") (auto simp: parseEvent_def bindE_eq_Inr)
qed

text \<open>
  Claim C6. Whenever \<^verbatim>\<open>parseRawEvents\<close> returns, its events are those of the raw response,
  one for one and in order, and for each of them: the \<^verbatim>\<open>contractId\<close> field is absent
  exactly when the raw contract identifier is the empty string; for a non-empty identifier
  it is the \<^verbatim>\<open>Contract\<close> built from that string; every topic and the value are decoded as
  \<^verbatim>\<open>ScVal\<close>; the other fields are copied. The parser returns exactly when the library
  accepts every non-empty identifier, topic and value of the response.
\<close>

theorem parseRawEvents_contractId:
  "(parseRawEvents cdc r = Inr out \<and> rge_events r = Some evts \<longrightarrow>
      ge_latestLedger out = rge_latestLedger r
    \<and> length (ge_events out) = length evts
    \<and> (\<forall>i < length evts.
          (ev_contractId (ge_events out ! i) = None \<longleftrightarrow> re_contractId (evts ! i) = [])
        \<and> (re_contractId (evts ! i) \<noteq> [] \<longrightarrow>
              ev_contractId (ge_events out ! i) = newContract cdc (re_contractId (evts ! i)))
        \<and> map (fromXDR cdc ScVal) (re_topic (evts ! i)) = map Some (ev_topic (ge_events out ! i))
        \<and> fromXDR cdc ScVal (re_value (evts ! i)) = Some (ev_value (ge_events out ! i))
        \<and> ev_rest (ge_events out ! i) = re_rest (evts ! i)))
   \<and> (rge_events r = Some evts \<longrightarrow>
        ((\<exists>res. parseRawEvents cdc r = Inr res) \<longleftrightarrow>
         (\<forall>evt \<in> set evts.
            (re_contractId evt \<noteq> [] \<longrightarrow> newContract cdc (re_contractId evt) \<noteq> None)
            \<and> (\<forall>t \<in> set (re_topic evt). fromXDR cdc ScVal t \<noteq> None)
            \<and> fromXDR cdc ScVal (re_value evt) \<noteq> None)))"
proof (intro conjI impI)
  assume a: "parseRawEvents cdc r = Inr out \<and> rge_events r = Some evts"
  then have m: "mapE (parseEvent cdc) evts = Inr (ge_events out)"
    and l: "ge_latestLedger out = rge_latestLedger r"
    by (auto simp: parseRawEvents_def bindE_eq_Inr)
  show "ge_latestLedger out = rge_latestLedger r" by (rule l)
  show "length (ge_events out) = length evts" using m by (rule mapE_length)
  show "\<forall>i < length evts.
          (ev_contractId (ge_events out ! i) = None \<longleftrightarrow> re_contractId (evts ! i) = [])
        \<and> (re_contractId (evts ! i) \<noteq> [] \<longrightarrow>
              ev_contractId (ge_events out ! i) = newContract cdc (re_contractId (evts ! i)))
        \<and> map (fromXDR cdc ScVal) (re_topic (evts ! i)) = map Some (ev_topic (ge_events out ! i))
        \<and> fromXDR cdc ScVal (re_value (evts ! i)) = Some (ev_value (ge_events out ! i))
        \<and> ev_rest (ge_events out ! i) = re_rest (evts ! i)"
  proof (intro allI impI)
    fix i assume "i < length evts"
    with m have "parseEvent cdc (evts ! i) = Inr (ge_events out ! i)" by (rule mapE_nth)
    then show "(ev_contractId (ge_events out ! i) = None \<longleftrightarrow> re_contractId (evts ! i) = [])
        \<and> (re_contractId (evts ! i) \<noteq> [] \<longrightarrow>
              ev_contractId (ge_events out ! i) = newContract cdc (re_contractId (evts ! i)))
        \<and> map (fromXDR cdc ScVal) (re_topic (evts ! i)) = map Some (ev_topic (ge_events out ! i))
        \<and> fromXDR cdc ScVal (re_value (evts ! i)) = Some (ev_value (ge_events out ! i))
        \<and> ev_rest (ge_events out ! i) = re_rest (evts ! i)"
      unfolding parseEvent_eq_Inr by (auto split: if_splits)
  qed
next
  assume e: "rge_events r = Some evts"
  have "(\<exists>res. parseRawEvents cdc r = Inr res) \<longleftrightarrow> (\<exists>ys. mapE (parseEvent cdc) evts = Inr ys)"
    by (auto simp: parseRawEvents_def e bindE_eq_Inr)
  also have "\<dots> \<longleftrightarrow> (\<forall>evt \<in> set evts. \<exists>ev. parseEvent cdc evt = Inr ev)"
    by (rule mapE_total)
  finally show "(\<exists>res. parseRawEvents cdc r = Inr res) \<longleftrightarrow>
         (\<forall>evt \<in> set evts.
            (re_contractId evt \<noteq> [] \<longrightarrow> newContract cdc (re_contractId evt) \<noteq> None)
            \<and> (\<forall>t \<in> set (re_topic evt). fromXDR cdc ScVal t \<noteq> None)
            \<and> fromXDR cdc ScVal (re_value evt) \<noteq> None)"
    by (simp add: parseEvent_total)
qed

theorem parseRawEvents_contractId_witness:
  "parseRawEvents sample_codec sample_events =
     Inr \<lparr>ge_latestLedger = 100,
          ge_events =
            [\<lparr>ev_rest = ''0001'', ev_contractId = Some (ContractObject ''CABC''),
              ev_topic = [XdrObject ScVal ''T1'', XdrObject ScVal ''T2''],
              ev_value = XdrObject ScVal ''V1''\<rparr>,
             \<lparr>ev_rest = ''0002'', ev_contractId = None,
              ev_topic = [XdrObject ScVal ''T3''],
              ev_value = XdrObject ScVal ''V2''\<rparr>]\<rparr>
   \<and> rge_events sample_events = Some [sample_event_scoped, sample_event_unscoped]
   \<and> re_contractId sample_event_scoped = ''CABC''
   \<and> re_contractId sample_event_unscoped = []"
proof -
  let ?evts = "[sample_event_scoped, sample_event_unscoped]"
  have evts: "rge_events sample_events = Some ?evts"
    by (simp add: sample_events_def)
  have "\<exists>res. parseRawEvents sample_codec sample_events = Inr res"
    using parseRawEvents_contractId [of sample_codec sample_events "\<lparr>ge_latestLedger = 100, ge_events = []\<rparr>" ?evts] evts
    by (simp add: sample_codec_def sample_event_scoped_def sample_event_unscoped_def)
  then obtain res where res: "parseRawEvents sample_codec sample_events = Inr res"
    by blast
  note facts = parseRawEvents_contractId [of sample_codec sample_events res ?evts,
      THEN conjunct1, rule_format, OF conjI [OF res evts]]
  have len: "length (ge_events res) = 2" and led: "ge_latestLedger res = 100"
    using facts by (simp_all add: sample_events_def)
  have at0: "ge_events res ! 0 =
      \<lparr>ev_rest = ''0001'', ev_contractId = Some (ContractObject ''CABC''),
       ev_topic = [XdrObject ScVal ''T1'', XdrObject ScVal ''T2''],
       ev_value = XdrObject ScVal ''V1''\<rparr>"
    using facts [THEN conjunct2, THEN conjunct2, rule_format, of 0]
    by (cases "ge_events res ! 0")
       (auto simp: sample_codec_def sample_event_scoped_def)
  have at1: "ge_events res ! 1 =
      \<lparr>ev_rest = ''0002'', ev_contractId = None,
       ev_topic = [XdrObject ScVal ''T3''],
       ev_value = XdrObject ScVal ''V2''\<rparr>"
    using facts [THEN conjunct2, THEN conjunct2, rule_format, of 1]
    by (cases "ge_events res ! 1")
       (auto simp: sample_codec_def sample_event_unscoped_def)
  from len obtain a b where ab: "ge_events res = [a, b]"
    by (cases "ge_events res"; cases "tl (ge_events res)") auto
  with at0 at1 led have "res = \<lparr>ge_latestLedger = 100,
          ge_events =
            [\<lparr>ev_rest = ''0001'', ev_contractId = Some (ContractObject ''CABC''),
              ev_topic = [XdrObject ScVal ''T1'', XdrObject ScVal ''T2''],
              ev_value = XdrObject ScVal ''V1''\<rparr>,
             \<lparr>ev_rest = ''0002'', ev_contractId = None,
              ev_topic = [XdrObject ScVal ''T3''],
              ev_value = XdrObject ScVal ''V2''\<rparr>]\<rparr>"
    by (cases res) simp
  with res evts show ?thesis
    by (simp add: sample_event_scoped_def sample_event_unscoped_def)
qed

section \<open>parseTransactionInfo: the return value\<close>

lemma parseTransactionInfo_Inr_D:
  assumes "parseTransactionInfo cdc raw = Inr info"
  shows "\<exists>m. rti_resultMetaXdr raw = Some m \<and>
             fromXDR cdc TransactionMeta m = Some (ti_resultMetaXdr info)"
    and "ti_returnValue info =
           (if metaSwitch cdc (ti_resultMetaXdr info) = 3
            then map_option (sorobanReturnValue cdc)
                   (metaV3SorobanMeta cdc (ti_resultMetaXdr info))
            else None)"
  using assms
  by (auto simp: parseTransactionInfo_def Let_def bindE_eq_Inr
           split: if_splits option.splits)

lemma ex_optional_mapE:
  "(\<exists>y. (case d of None \<Rightarrow> Inr i | Some evts \<Rightarrow> bindE (mapE f evts) (\<lambda>ds. Inr (g ds))) = Inr y) \<longleftrightarrow>
     (\<forall>evts. d = Some evts \<longrightarrow> (\<exists>ys. mapE f evts = Inr ys))"
  by (cases d) (simp_all add: ex_bindE_Inr)

text \<open>
  Claim C7. Whenever \<^verbatim>\<open>parseTransactionInfo\<close> returns, its \<^verbatim>\<open>resultMetaXdr\<close> is the decoded
  result-metadata of the raw input, and its \<^verbatim>\<open>returnValue\<close> is present exactly when the
  switch of that metadata is 3 and the soroban meta of its v3 arm is not \<^verbatim>\<open>null\<close>; it is
  then the return value of that soroban meta. The parser returns exactly when the
  metadata, the envelope and the result are there and decode, and so does every
  diagnostic event of a response that has them.
\<close>

theorem parseTransactionInfo_returnValue:
  "(parseTransactionInfo cdc raw = Inr info \<longrightarrow>
      (\<exists>m. rti_resultMetaXdr raw = Some m \<and>
           fromXDR cdc TransactionMeta m = Some (ti_resultMetaXdr info))
    \<and> (ti_returnValue info \<noteq> None \<longleftrightarrow>
          metaSwitch cdc (ti_resultMetaXdr info) = 3 \<and>
          metaV3SorobanMeta cdc (ti_resultMetaXdr info) \<noteq> None)
    \<and> (\<forall>sorobanMeta.
          metaSwitch cdc (ti_resultMetaXdr info) = 3 \<and>
          metaV3SorobanMeta cdc (ti_resultMetaXdr info) = Some sorobanMeta \<longrightarrow>
          ti_returnValue info = Some (sorobanReturnValue cdc sorobanMeta)))
   \<and> ((\<exists>res. parseTransactionInfo cdc raw = Inr res) \<longleftrightarrow>
        (\<exists>m e t. rti_resultMetaXdr raw = Some m \<and> fromXDR cdc TransactionMeta m \<noteq> None \<and>
                 rti_envelopeXdr raw = Some e \<and> fromXDR cdc TransactionEnvelope e \<noteq> None \<and>
                 rti_resultXdr raw = Some t \<and> fromXDR cdc TransactionResult t \<noteq> None)
        \<and> (\<forall>evts. rti_diagnosticEventsXdr raw = Some evts \<longrightarrow>
              (\<forall>evt \<in> set evts. fromXDR cdc DiagnosticEvent evt \<noteq> None)))"
proof (intro conjI impI)
  assume "parseTransactionInfo cdc raw = Inr info"
  then obtain m where m: "rti_resultMetaXdr raw = Some m"
      "fromXDR cdc TransactionMeta m = Some (ti_resultMetaXdr info)"
    and rv: "ti_returnValue info =
       (if metaSwitch cdc (ti_resultMetaXdr info) = 3
        then map_option (sorobanReturnValue cdc) (metaV3SorobanMeta cdc (ti_resultMetaXdr info))
        else None)"
    using parseTransactionInfo_Inr_D [of cdc raw info] by auto
  show "\<exists>m. rti_resultMetaXdr raw = Some m \<and>
           fromXDR cdc TransactionMeta m = Some (ti_resultMetaXdr info)"
    using m by blast
  show "ti_returnValue info \<noteq> None \<longleftrightarrow>
          metaSwitch cdc (ti_resultMetaXdr info) = 3 \<and>
          metaV3SorobanMeta cdc (ti_resultMetaXdr info) \<noteq> None"
    by (simp add: rv)
  show "\<forall>sorobanMeta.
          metaSwitch cdc (ti_resultMetaXdr info) = 3 \<and>
          metaV3SorobanMeta cdc (ti_resultMetaXdr info) = Some sorobanMeta \<longrightarrow>
          ti_returnValue info = Some (sorobanReturnValue cdc sorobanMeta)"
    by (simp add: rv)
next
  have evs: "(\<exists>ys. mapE (decode cdc DiagnosticEvent) evts = Inr ys) \<longleftrightarrow>
      (\<forall>evt \<in> set evts. fromXDR cdc DiagnosticEvent evt \<noteq> None)" for evts
    by (rule mapE_decode_total)
  show "(\<exists>res. parseTransactionInfo cdc raw = Inr res) \<longleftrightarrow>
        (\<exists>m e t. rti_resultMetaXdr raw = Some m \<and> fromXDR cdc TransactionMeta m \<noteq> None \<and>
                 rti_envelopeXdr raw = Some e \<and> fromXDR cdc TransactionEnvelope e \<noteq> None \<and>
                 rti_resultXdr raw = Some t \<and> fromXDR cdc TransactionResult t \<noteq> None)
        \<and> (\<forall>evts. rti_diagnosticEventsXdr raw = Some evts \<longrightarrow>
              (\<forall>evt \<in> set evts. fromXDR cdc DiagnosticEvent evt \<noteq> None))"
    unfolding parseTransactionInfo_def Let_def ex_bindE_Inr ex_optional_mapE evs
    by auto
qed

theorem parseTransactionInfo_returnValue_witness:
  "parseTransactionInfo sample_codec sample_transaction_info =
     Inr \<lparr>ti_ledger = Some 42, ti_createdAt = Some 1700000000,
          ti_applicationOrder = Some 1, ti_feeBump = Some False,
          ti_envelopeXdr = XdrObject TransactionEnvelope ''ENV'',
          ti_resultXdr = XdrObject TransactionResult ''RES'',
          ti_resultMetaXdr = XdrObject TransactionMeta ''3RET'',
          ti_returnValue = Some (XdrObject ScVal ''RET''),
          ti_diagnosticEventsXdr = None\<rparr>
   \<and> metaSwitch sample_codec (XdrObject TransactionMeta ''3RET'') = 3
   \<and> metaV3SorobanMeta sample_codec (XdrObject TransactionMeta ''3RET'') =
       Some (SorobanMetaObject ''RET'')
   \<and> sorobanReturnValue sample_codec (SorobanMetaObject ''RET'') = XdrObject ScVal ''RET''"
proof -
  let ?info = "\<lparr>ti_ledger = Some 42, ti_createdAt = Some 1700000000,
          ti_applicationOrder = Some 1, ti_feeBump = Some False,
          ti_envelopeXdr = XdrObject TransactionEnvelope ''ENV'',
          ti_resultXdr = XdrObject TransactionResult ''RES'',
          ti_resultMetaXdr = XdrObject TransactionMeta ''3RET'',
          ti_returnValue = Some (XdrObject ScVal ''RET''),
          ti_diagnosticEventsXdr = None\<rparr>"
  have run: "parseTransactionInfo sample_codec sample_transaction_info = Inr ?info"
    by (simp add: parseTransactionInfo_def sample_transaction_info_def sample_codec_def
          decodeRequired_def decode_def Let_def)
  have "ti_returnValue ?info \<noteq> None \<longleftrightarrow>
          metaSwitch sample_codec (ti_resultMetaXdr ?info) = 3 \<and>
          metaV3SorobanMeta sample_codec (ti_resultMetaXdr ?info) \<noteq> None"
    using parseTransactionInfo_returnValue [of sample_codec sample_transaction_info ?info] run
    by blast
  with run show ?thesis
    by (simp add: sample_codec_def)
qed

section \<open>parseRawSimulation: idempotence, variants, coalescing\<close>

text \<open>
  Claim C1. Every response the parser returns carries the parsed-marker, so the shape
  predicate \<^verbatim>\<open>isSimulationRaw\<close> does not hold of it, and parsing it again returns it as it
  is: parsing is idempotent (a parse that failed stays failed). The arguments already in
  parsed form, those of which the predicate does not hold, are the parsed responses whose
  marker is true, and each is returned as it is. On a raw response the parser returns
  exactly when the library accepts what it is handed, so parsing twice is not idempotent
  for want of a result. (Values of the model have no identity apart from their content, so
  "the same object, not a copy" is equality here.)
\<close>

theorem parseRawSimulation_idempotent:
  "(\<forall>y. parseRawSimulation cdc x = Inr y \<longrightarrow>
        bs_parsed (baseOf y)
      \<and> \<not> isSimulationRaw (ParsedSimulation y)
      \<and> parseRawSimulation cdc (ParsedSimulation y) = Inr y)
   \<and> bindE (parseRawSimulation cdc x) (\<lambda>y. parseRawSimulation cdc (ParsedSimulation y)) =
       parseRawSimulation cdc x
   \<and> (\<not> isSimulationRaw x \<longrightarrow>
        x = ParsedSimulation (theParsed x)
      \<and> bs_parsed (baseOf (theParsed x))
      \<and> parseRawSimulation cdc x = Inr (theParsed x))
   \<and> ((\<exists>y. parseRawSimulation cdc (RawSimulation sim) = Inr y) \<longleftrightarrow> libraryAccepts cdc sim)"
proof -
  have marked: "bs_parsed (baseOf y)" if run: "parseRawSimulation cdc x = Inr y" for y
  proof (cases "isSimulationRaw x")
    case True
    with run have "parseRawSimulation cdc (RawSimulation (theRaw x)) = Inr y"
      by (simp add: parseRawSimulation_looks_raw)
    then show ?thesis by (rule parseRawSimulation_marker)
  next
    case False
    then obtain p where p: "x = ParsedSimulation p" "bs_parsed (baseOf p)"
      unfolding not_isSimulationRaw_iff by blast
    with run have "y = p" by (simp add: parseRawSimulation_parsed)
    with p show ?thesis by simp
  qed
  have again: "\<not> isSimulationRaw (ParsedSimulation y)
      \<and> parseRawSimulation cdc (ParsedSimulation y) = Inr y"
    if "parseRawSimulation cdc x = Inr y" for y
    using marked [OF that] by (simp add: parseRawSimulation_parsed not_isSimulationRaw_iff)
  have twice: "bindE (parseRawSimulation cdc x) (\<lambda>y. parseRawSimulation cdc (ParsedSimulation y)) =
       parseRawSimulation cdc x"
  proof (cases "parseRawSimulation cdc x")
    case (Inl e)
    then show ?thesis by simp
  next
    case (Inr y)
    with again [OF Inr] show ?thesis by simp
  qed
  have already: "x = ParsedSimulation (theParsed x)
      \<and> bs_parsed (baseOf (theParsed x))
      \<and> parseRawSimulation cdc x = Inr (theParsed x)"
    if "\<not> isSimulationRaw x"
  proof -
    from that obtain p where p: "x = ParsedSimulation p" "bs_parsed (baseOf p)"
      unfolding not_isSimulationRaw_iff by blast
    then show ?thesis by (simp add: parseRawSimulation_parsed)
  qed
  have returns: "(\<exists>y. parseRawSimulation cdc (RawSimulation sim) = Inr y) \<longleftrightarrow>
      libraryAccepts cdc sim"
    by (rule parseRawSimulation_total)
  from marked again twice already returns show ?thesis by blast
qed

theorem parseRawSimulation_idempotent_witness:
  "libraryAccepts sample_codec sample_simulation_error
   \<and> parseRawSimulation sample_codec (RawSimulation sample_simulation_error) =
       Inr sample_parsed_error
   \<and> bs_parsed (baseOf sample_parsed_error)
   \<and> \<not> isSimulationRaw (ParsedSimulation sample_parsed_error)
   \<and> parseRawSimulation sample_codec (ParsedSimulation sample_parsed_error) =
       Inr sample_parsed_error"
proof -
  have run: "parseRawSimulation sample_codec (RawSimulation sample_simulation_error) =
       Inr sample_parsed_error"
    by (simp add: sample_simulation_error_parsed sample_parsed_error_def)
  note idem = parseRawSimulation_idempotent
    [of sample_codec "RawSimulation sample_simulation_error" sample_simulation_error]
  from idem run have "libraryAccepts sample_codec sample_simulation_error" by blast
  moreover from idem run have "bs_parsed (baseOf sample_parsed_error)
      \<and> \<not> isSimulationRaw (ParsedSimulation sample_parsed_error)
      \<and> parseRawSimulation sample_codec (ParsedSimulation sample_parsed_error) =
          Inr sample_parsed_error"
    by blast
  ultimately show ?thesis using run by blast
qed

text \<open>
  Claim C2. Whenever \<^verbatim>\<open>parseRawSimulation\<close> returns on a raw response, the result is the
  \<open>Error\<close> shape, carrying the raw error, exactly when the raw \<^verbatim>\<open>error\<close> is a string; the
  \<open>Restore\<close> shape exactly when there is no error and a restore preamble is present with a
  non-empty \<^verbatim>\<open>transactionData\<close>, and its preamble then has the raw fee and the data built
  from that string; and the plain \<open>Success\<close> shape exactly otherwise. The three shapes are
  the constructors of one datatype, so the result is exactly one of them. In every shape the
  base fields carry the parsed marker, the id and the latest ledger of the raw response.
  The parser returns exactly when the library accepts what the parser hands to it.
\<close>

theorem parseRawSimulation_variants:
  "(parseRawSimulation cdc (RawSimulation sim) = Inr out \<longrightarrow>
      (\<forall>err. rsim_error sim = Some err \<longrightarrow> (\<exists>b. out = ErrorResponse b err))
    \<and> ((\<exists>b err. out = ErrorResponse b err) \<longleftrightarrow> rsim_error sim \<noteq> None)
    \<and> ((\<exists>b s p. out = RestoreResponse b s p) \<longleftrightarrow>
          rsim_error sim = None \<and>
          (\<exists>pre. rsim_restorePreamble sim = Some pre \<and> rrp_transactionData pre \<noteq> []))
    \<and> ((\<exists>b s. out = SuccessResponse b s) \<longleftrightarrow>
          rsim_error sim = None \<and>
          (\<forall>pre. rsim_restorePreamble sim = Some pre \<longrightarrow> rrp_transactionData pre = []))
    \<and> (\<forall>b s p. out = RestoreResponse b s p \<longrightarrow>
          (\<exists>pre. rsim_restorePreamble sim = Some pre \<and>
                 rp_minResourceFee p = rrp_minResourceFee pre \<and>
                 newSorobanDataBuilder cdc (Some (rrp_transactionData pre)) =
                   Some (rp_transactionData p)))
    \<and> bs_parsed (baseOf out)
    \<and> bs_id (baseOf out) = rsim_id sim
    \<and> bs_latestLedger (baseOf out) = rsim_latestLedger sim)
   \<and> ((\<exists>res. parseRawSimulation cdc (RawSimulation sim) = Inr res) \<longleftrightarrow> libraryAccepts cdc sim)"
proof (intro conjI impI)
  show "(\<exists>res. parseRawSimulation cdc (RawSimulation sim) = Inr res) \<longleftrightarrow> libraryAccepts cdc sim"
    by (rule parseRawSimulation_total)
next
  assume run: "parseRawSimulation cdc (RawSimulation sim) = Inr out"
  then obtain events where
    out: "case rsim_error sim of
            Some err \<Rightarrow> out = ErrorResponse \<lparr>bs_parsed = True, bs_id = rsim_id sim,
                         bs_latestLedger = rsim_latestLedger sim, bs_events = events\<rparr> err
          | None \<Rightarrow> parseSuccessful cdc sim \<lparr>bs_parsed = True, bs_id = rsim_id sim,
                         bs_latestLedger = rsim_latestLedger sim, bs_events = events\<rparr> = Inr out"
    unfolding parseRawSimulation_raw_eq_Inr by blast
  let ?base = "\<lparr>bs_parsed = True, bs_id = rsim_id sim,
                 bs_latestLedger = rsim_latestLedger sim, bs_events = events\<rparr>"
  have shape:
    "(\<forall>err. rsim_error sim = Some err \<longrightarrow> (\<exists>b. out = ErrorResponse b err))
    \<and> ((\<exists>b err. out = ErrorResponse b err) \<longleftrightarrow> rsim_error sim \<noteq> None)
    \<and> ((\<exists>b s p. out = RestoreResponse b s p) \<longleftrightarrow>
          rsim_error sim = None \<and>
          (\<exists>pre. rsim_restorePreamble sim = Some pre \<and> rrp_transactionData pre \<noteq> []))
    \<and> ((\<exists>b s. out = SuccessResponse b s) \<longleftrightarrow>
          rsim_error sim = None \<and>
          (\<forall>pre. rsim_restorePreamble sim = Some pre \<longrightarrow> rrp_transactionData pre = []))
    \<and> (\<forall>b s p. out = RestoreResponse b s p \<longrightarrow>
          (\<exists>pre. rsim_restorePreamble sim = Some pre \<and>
                 rp_minResourceFee p = rrp_minResourceFee pre \<and>
                 newSorobanDataBuilder cdc (Some (rrp_transactionData pre)) =
                   Some (rp_transactionData p)))
    \<and> baseOf out = ?base"
  proof (cases "rsim_error sim")
    case (Some err)
    with out have "out = ErrorResponse ?base err" by simp
    with Some show ?thesis by simp
  next
    case None
    with out have ok: "parseSuccessful cdc sim ?base = Inr out" by simp
    show ?thesis
      using parseSuccessful_Inr_D [OF ok] None by simp
  qed
  show "\<forall>err. rsim_error sim = Some err \<longrightarrow> (\<exists>b. out = ErrorResponse b err)"
    using shape by blast
  show "(\<exists>b err. out = ErrorResponse b err) \<longleftrightarrow> rsim_error sim \<noteq> None"
    using shape by blast
  show "(\<exists>b s p. out = RestoreResponse b s p) \<longleftrightarrow>
          rsim_error sim = None \<and>
          (\<exists>pre. rsim_restorePreamble sim = Some pre \<and> rrp_transactionData pre \<noteq> [])"
    using shape by blast
  show "(\<exists>b s. out = SuccessResponse b s) \<longleftrightarrow>
          rsim_error sim = None \<and>
          (\<forall>pre. rsim_restorePreamble sim = Some pre \<longrightarrow> rrp_transactionData pre = [])"
    using shape by blast
  show "\<forall>b s p. out = RestoreResponse b s p \<longrightarrow>
          (\<exists>pre. rsim_restorePreamble sim = Some pre \<and>
                 rp_minResourceFee p = rrp_minResourceFee pre \<and>
                 newSorobanDataBuilder cdc (Some (rrp_transactionData pre)) =
                   Some (rp_transactionData p))"
    using shape by blast
  have "baseOf out = ?base" using shape by blast
  then show "bs_parsed (baseOf out)" "bs_id (baseOf out) = rsim_id sim"
    "bs_latestLedger (baseOf out) = rsim_latestLedger sim"
    by simp_all
qed

theorem parseRawSimulation_variants_witness:
  "parseRawSimulation sample_codec (RawSimulation sample_simulation) =
     Inr (SuccessResponse
            \<lparr>bs_parsed = True, bs_id = ''1'', bs_latestLedger = 100, bs_events = []\<rparr>
            \<lparr>ss_transactionData = DataBuilderObject (Some ''DATA''),
             ss_minResourceFee = Some ''100'', ss_cost = Some ''COST'',
             ss_result = Some \<lparr>hr_auth = [], hr_retval = XdrObject ScVal ''VOID''\<rparr>,
             ss_stateChanges = None\<rparr>)
   \<and> rsim_error sample_simulation = None
   \<and> rsim_restorePreamble sample_simulation =
       Some \<lparr>rrp_minResourceFee = ''0'', rrp_transactionData = []\<rparr>
   \<and> libraryAccepts sample_codec sample_simulation"
  using parseRawSimulation_variants
    [of sample_codec sample_simulation
        "SuccessResponse
            \<lparr>bs_parsed = True, bs_id = ''1'', bs_latestLedger = 100, bs_events = []\<rparr>
            \<lparr>ss_transactionData = DataBuilderObject (Some ''DATA''),
             ss_minResourceFee = Some ''100'', ss_cost = Some ''COST'',
             ss_result = Some \<lparr>hr_auth = [], hr_retval = XdrObject ScVal ''VOID''\<rparr>,
             ss_stateChanges = None\<rparr>"]
    sample_simulation_parsed
  by (simp add: sample_simulation_def)

text \<open>
  Claim C8. For a raw response without an error on which the parser returns, the result
  has success fields, and their \<^verbatim>\<open>result\<close> is absent when the raw \<^verbatim>\<open>results\<close> list is absent
  or empty. Otherwise it is one record (the type has no list there) built from the first
  row: its \<^verbatim>\<open>auth\<close> are that row's authorization entries, decoded in order (none for an
  absent list), and its \<^verbatim>\<open>retval\<close> is the decoded \<^verbatim>\<open>xdr\<close> of the row when that is a non-empty
  string, and the void value when it is missing in the sense of the source, that is falsy.
  The parser returns exactly when the library accepts what it is handed, the authorization
  entries and the non-empty \<^verbatim>\<open>xdr\<close> of every row among it.
\<close>

theorem parseRawSimulation_result:
  "(parseRawSimulation cdc (RawSimulation sim) = Inr out \<and> rsim_error sim = None \<longrightarrow>
     (\<exists>s. successOf out = Some s \<and>
        (case rsim_results sim of
           None \<Rightarrow> ss_result s = None
         | Some [] \<Rightarrow> ss_result s = None
         | Some (row # others) \<Rightarrow>
             (\<exists>res. ss_result s = Some res
                \<and> map (fromXDR cdc SorobanAuthorizationEntry)
                    (case rsr_auth row of None \<Rightarrow> [] | Some entries \<Rightarrow> entries) =
                  map Some (hr_auth res)
                \<and> (\<forall>x. rsr_xdr row = Some x \<and> x \<noteq> [] \<longrightarrow>
                      fromXDR cdc ScVal x = Some (hr_retval res))
                \<and> (\<not> truthy (rsr_xdr row) \<longrightarrow> hr_retval res = scvVoid cdc)))))
   \<and> ((\<exists>res. parseRawSimulation cdc (RawSimulation sim) = Inr res) \<longleftrightarrow> libraryAccepts cdc sim)"
proof (rule conjI)
  show "parseRawSimulation cdc (RawSimulation sim) = Inr out \<and> rsim_error sim = None \<longrightarrow>
     (\<exists>s. successOf out = Some s \<and>
        (case rsim_results sim of
           None \<Rightarrow> ss_result s = None
         | Some [] \<Rightarrow> ss_result s = None
         | Some (row # others) \<Rightarrow>
             (\<exists>res. ss_result s = Some res
                \<and> map (fromXDR cdc SorobanAuthorizationEntry)
                    (case rsr_auth row of None \<Rightarrow> [] | Some entries \<Rightarrow> entries) =
                  map Some (hr_auth res)
                \<and> (\<forall>x. rsr_xdr row = Some x \<and> x \<noteq> [] \<longrightarrow>
                      fromXDR cdc ScVal x = Some (hr_retval res))
                \<and> (\<not> truthy (rsr_xdr row) \<longrightarrow> hr_retval res = scvVoid cdc))))"
  proof (intro impI, elim conjE)
    assume run: "parseRawSimulation cdc (RawSimulation sim) = Inr out"
      and noerr: "rsim_error sim = None"
    then obtain partial where "parseSuccessful cdc sim partial = Inr out"
      unfolding parseRawSimulation_raw_eq_Inr by auto
    from parseSuccessful_fields [OF this] obtain s where
      s: "successOf out = Some s"
      and r: "case rsim_results sim of
                None \<Rightarrow> ss_result s = None
              | Some [] \<Rightarrow> ss_result s = None
              | Some (row # others) \<Rightarrow>
                  \<exists>y ys. parseResultRow cdc row = Inr y \<and>
                         mapE (parseResultRow cdc) others = Inr ys \<and> ss_result s = Some y"
      by blast
    have "case rsim_results sim of
             None \<Rightarrow> ss_result s = None
           | Some [] \<Rightarrow> ss_result s = None
           | Some (row # others) \<Rightarrow>
               (\<exists>res. ss_result s = Some res
                  \<and> map (fromXDR cdc SorobanAuthorizationEntry)
                      (case rsr_auth row of None \<Rightarrow> [] | Some entries \<Rightarrow> entries) =
                    map Some (hr_auth res)
                  \<and> (\<forall>x. rsr_xdr row = Some x \<and> x \<noteq> [] \<longrightarrow>
                        fromXDR cdc ScVal x = Some (hr_retval res))
                  \<and> (\<not> truthy (rsr_xdr row) \<longrightarrow> hr_retval res = scvVoid cdc))"
      using r
      by (auto simp: parseResultRow_eq_Inr split: option.splits list.splits if_splits)
    with s show "\<exists>s. successOf out = Some s \<and>
          (case rsim_results sim of
             None \<Rightarrow> ss_result s = None
           | Some [] \<Rightarrow> ss_result s = None
           | Some (row # others) \<Rightarrow>
               (\<exists>res. ss_result s = Some res
                  \<and> map (fromXDR cdc SorobanAuthorizationEntry)
                      (case rsr_auth row of None \<Rightarrow> [] | Some entries \<Rightarrow> entries) =
                    map Some (hr_auth res)
                  \<and> (\<forall>x. rsr_xdr row = Some x \<and> x \<noteq> [] \<longrightarrow>
                        fromXDR cdc ScVal x = Some (hr_retval res))
                  \<and> (\<not> truthy (rsr_xdr row) \<longrightarrow> hr_retval res = scvVoid cdc)))"
      by blast
  qed
  show "(\<exists>res. parseRawSimulation cdc (RawSimulation sim) = Inr res) \<longleftrightarrow> libraryAccepts cdc sim"
    by (rule parseRawSimulation_total)
qed

theorem parseRawSimulation_result_witness:
  "libraryAccepts sample_codec sample_simulation
   \<and> rsim_results sample_simulation = Some [\<lparr>rsr_auth = Some [], rsr_xdr = Some ''VOID''\<rparr>]
   \<and> parseRawSimulation sample_codec (RawSimulation sample_simulation) =
       Inr (SuccessResponse
              \<lparr>bs_parsed = True, bs_id = ''1'', bs_latestLedger = 100, bs_events = []\<rparr>
              \<lparr>ss_transactionData = DataBuilderObject (Some ''DATA''),
               ss_minResourceFee = Some ''100'', ss_cost = Some ''COST'',
               ss_result = Some \<lparr>hr_auth = [], hr_retval = XdrObject ScVal ''VOID''\<rparr>,
               ss_stateChanges = None\<rparr>)
   \<and> fromXDR sample_codec ScVal ''VOID'' = Some (XdrObject ScVal ''VOID'')
   \<and> libraryAccepts sample_codec sample_simulation_restore
   \<and> rsim_results sample_simulation_restore =
       Some [\<lparr>rsr_auth = Some [''AUTH''], rsr_xdr = None\<rparr>]
   \<and> parseRawSimulation sample_codec (RawSimulation sample_simulation_restore) =
       Inr (RestoreResponse
              \<lparr>bs_parsed = True, bs_id = ''3'', bs_latestLedger = 100, bs_events = []\<rparr>
              \<lparr>ss_transactionData = DataBuilderObject (Some ''DATA''),
               ss_minResourceFee = Some ''100'', ss_cost = Some ''COST'',
               ss_result = Some \<lparr>hr_auth = [XdrObject SorobanAuthorizationEntry ''AUTH''],
                                 hr_retval = VoidObject\<rparr>,
               ss_stateChanges =
                 Some [\<lparr>lc_type = 1, lc_key = XdrObject LedgerKey ''KEY'', lc_before = None,
                        lc_after = Some (XdrObject LedgerEntry ''NEW'')\<rparr>]\<rparr>
              \<lparr>rp_minResourceFee = ''55'',
               rp_transactionData = DataBuilderObject (Some ''RESTORE'')\<rparr>)
   \<and> scvVoid sample_codec = VoidObject"
proof -
  let ?present = "SuccessResponse
              \<lparr>bs_parsed = True, bs_id = ''1'', bs_latestLedger = 100, bs_events = []\<rparr>
              \<lparr>ss_transactionData = DataBuilderObject (Some ''DATA''),
               ss_minResourceFee = Some ''100'', ss_cost = Some ''COST'',
               ss_result = Some \<lparr>hr_auth = [], hr_retval = XdrObject ScVal ''VOID''\<rparr>,
               ss_stateChanges = None\<rparr>"
  let ?absent = "RestoreResponse
              \<lparr>bs_parsed = True, bs_id = ''3'', bs_latestLedger = 100, bs_events = []\<rparr>
              \<lparr>ss_transactionData = DataBuilderObject (Some ''DATA''),
               ss_minResourceFee = Some ''100'', ss_cost = Some ''COST'',
               ss_result = Some \<lparr>hr_auth = [XdrObject SorobanAuthorizationEntry ''AUTH''],
                                 hr_retval = VoidObject\<rparr>,
               ss_stateChanges =
                 Some [\<lparr>lc_type = 1, lc_key = XdrObject LedgerKey ''KEY'', lc_before = None,
                        lc_after = Some (XdrObject LedgerEntry ''NEW'')\<rparr>]\<rparr>
              \<lparr>rp_minResourceFee = ''55'',
               rp_transactionData = DataBuilderObject (Some ''RESTORE'')\<rparr>"
  have present: "libraryAccepts sample_codec sample_simulation"
    using parseRawSimulation_result [of sample_codec sample_simulation ?present]
      sample_simulation_parsed
    by blast
  have absent: "libraryAccepts sample_codec sample_simulation_restore"
    using parseRawSimulation_result [of sample_codec sample_simulation_restore ?absent]
      sample_simulation_restore_parsed
    by blast
  from present absent sample_simulation_parsed sample_simulation_restore_parsed
  show ?thesis
    by (simp add: sample_simulation_def sample_simulation_restore_def sample_codec_def)
qed

text \<open>
  Claim C9, as stated, fails: a raw response whose \<^verbatim>\<open>stateChanges\<close> field is present but
  empty is parsed to a response without a \<^verbatim>\<open>stateChanges\<close> field, because the spread is
  guarded by the length of the list.
\<close>

theorem stateChanges_present_but_empty_counterexample:
  "rsim_error sample_simulation = None
   \<and> rsim_stateChanges sample_simulation = Some []
   \<and> parseRawSimulation sample_codec (RawSimulation sample_simulation) =
       Inr (SuccessResponse
              \<lparr>bs_parsed = True, bs_id = ''1'', bs_latestLedger = 100, bs_events = []\<rparr>
              \<lparr>ss_transactionData = DataBuilderObject (Some ''DATA''),
               ss_minResourceFee = Some ''100'', ss_cost = Some ''COST'',
               ss_result = Some \<lparr>hr_auth = [], hr_retval = XdrObject ScVal ''VOID''\<rparr>,
               ss_stateChanges = None\<rparr>)"
  by (simp add: sample_simulation_parsed) (simp add: sample_simulation_def)

text \<open>
  Claim C9, amended. For a raw response without an error on which the parser returns, the
  result has success fields, and their \<^verbatim>\<open>stateChanges\<close> is absent when the raw list is
  absent or empty. For a non-empty raw list it is a list of the same length whose entries
  carry, in order, the copied type, the decoded key, and \<^verbatim>\<open>before\<close> and \<^verbatim>\<open>after\<close> snapshots
  that are \<^verbatim>\<open>null\<close> exactly when the raw snapshot is absent in the sense of the source, that
  is falsy, and the decoded ledger entry otherwise. The parser returns exactly when the
  library accepts what it is handed, the key and each snapshot that is there among it.
\<close>

theorem parseRawSimulation_stateChanges:
  "(parseRawSimulation cdc (RawSimulation sim) = Inr out \<and> rsim_error sim = None \<longrightarrow>
     (\<exists>s. successOf out = Some s
        \<and> (rsim_stateChanges sim = None \<or> rsim_stateChanges sim = Some [] \<longrightarrow>
              ss_stateChanges s = None)
        \<and> (\<forall>changes. rsim_stateChanges sim = Some changes \<and> changes \<noteq> [] \<longrightarrow>
              (\<exists>parsed. ss_stateChanges s = Some parsed
                 \<and> length parsed = length changes
                 \<and> (\<forall>i < length changes.
                       lc_type (parsed ! i) = rlc_type (changes ! i)
                     \<and> fromXDR cdc LedgerKey (rlc_key (changes ! i)) = Some (lc_key (parsed ! i))
                     \<and> (lc_before (parsed ! i) = None \<longleftrightarrow> \<not> truthy (rlc_before (changes ! i)))
                     \<and> (\<forall>b. rlc_before (changes ! i) = Some b \<and> b \<noteq> [] \<longrightarrow>
                           lc_before (parsed ! i) = fromXDR cdc LedgerEntry b)
                     \<and> (lc_after (parsed ! i) = None \<longleftrightarrow> \<not> truthy (rlc_after (changes ! i)))
                     \<and> (\<forall>a. rlc_after (changes ! i) = Some a \<and> a \<noteq> [] \<longrightarrow>
                           lc_after (parsed ! i) = fromXDR cdc LedgerEntry a))))))
   \<and> ((\<exists>res. parseRawSimulation cdc (RawSimulation sim) = Inr res) \<longleftrightarrow> libraryAccepts cdc sim)"
proof (rule conjI)
  show "parseRawSimulation cdc (RawSimulation sim) = Inr out \<and> rsim_error sim = None \<longrightarrow>
     (\<exists>s. successOf out = Some s
        \<and> (rsim_stateChanges sim = None \<or> rsim_stateChanges sim = Some [] \<longrightarrow>
              ss_stateChanges s = None)
        \<and> (\<forall>changes. rsim_stateChanges sim = Some changes \<and> changes \<noteq> [] \<longrightarrow>
              (\<exists>parsed. ss_stateChanges s = Some parsed
                 \<and> length parsed = length changes
                 \<and> (\<forall>i < length changes.
                       lc_type (parsed ! i) = rlc_type (changes ! i)
                     \<and> fromXDR cdc LedgerKey (rlc_key (changes ! i)) = Some (lc_key (parsed ! i))
                     \<and> (lc_before (parsed ! i) = None \<longleftrightarrow> \<not> truthy (rlc_before (changes ! i)))
                     \<and> (\<forall>b. rlc_before (changes ! i) = Some b \<and> b \<noteq> [] \<longrightarrow>
                           lc_before (parsed ! i) = fromXDR cdc LedgerEntry b)
                     \<and> (lc_after (parsed ! i) = None \<longleftrightarrow> \<not> truthy (rlc_after (changes ! i)))
                     \<and> (\<forall>a. rlc_after (changes ! i) = Some a \<and> a \<noteq> [] \<longrightarrow>
                           lc_after (parsed ! i) = fromXDR cdc LedgerEntry a)))))"
  proof (intro impI, elim conjE)
    assume run: "parseRawSimulation cdc (RawSimulation sim) = Inr out"
      and noerr: "rsim_error sim = None"
    then obtain partial where "parseSuccessful cdc sim partial = Inr out"
      unfolding parseRawSimulation_raw_eq_Inr by auto
    from parseSuccessful_fields [OF this] obtain s where
      s: "successOf out = Some s"
      and c: "case rsim_stateChanges sim of
                None \<Rightarrow> ss_stateChanges s = None
              | Some [] \<Rightarrow> ss_stateChanges s = None
              | Some (x # xs) \<Rightarrow>
                  \<exists>ys. mapE (parseEntryChange cdc) (x # xs) = Inr ys \<and> ss_stateChanges s = Some ys"
      by blast
    have absent: "rsim_stateChanges sim = None \<or> rsim_stateChanges sim = Some [] \<longrightarrow>
                ss_stateChanges s = None"
      using c by auto
    have present: "\<exists>parsed. ss_stateChanges s = Some parsed
                   \<and> length parsed = length changes
                   \<and> (\<forall>i < length changes.
                         lc_type (parsed ! i) = rlc_type (changes ! i)
                       \<and> fromXDR cdc LedgerKey (rlc_key (changes ! i)) = Some (lc_key (parsed ! i))
                       \<and> (lc_before (parsed ! i) = None \<longleftrightarrow> \<not> truthy (rlc_before (changes ! i)))
                       \<and> (\<forall>b. rlc_before (changes ! i) = Some b \<and> b \<noteq> [] \<longrightarrow>
                             lc_before (parsed ! i) = fromXDR cdc LedgerEntry b)
                       \<and> (lc_after (parsed ! i) = None \<longleftrightarrow> \<not> truthy (rlc_after (changes ! i)))
                       \<and> (\<forall>a. rlc_after (changes ! i) = Some a \<and> a \<noteq> [] \<longrightarrow>
                             lc_after (parsed ! i) = fromXDR cdc LedgerEntry a))"
      if ch: "rsim_stateChanges sim = Some changes" "changes \<noteq> []" for changes
    proof -
      from ch c obtain parsed where
        m: "mapE (parseEntryChange cdc) changes = Inr parsed"
        and p: "ss_stateChanges s = Some parsed"
        by (cases changes) auto
      have each: "lc_type (parsed ! i) = rlc_type (changes ! i)
                 \<and> fromXDR cdc LedgerKey (rlc_key (changes ! i)) = Some (lc_key (parsed ! i))
                 \<and> (lc_before (parsed ! i) = None \<longleftrightarrow> \<not> truthy (rlc_before (changes ! i)))
                 \<and> (\<forall>b. rlc_before (changes ! i) = Some b \<and> b \<noteq> [] \<longrightarrow>
                       lc_before (parsed ! i) = fromXDR cdc LedgerEntry b)
                 \<and> (lc_after (parsed ! i) = None \<longleftrightarrow> \<not> truthy (rlc_after (changes ! i)))
                 \<and> (\<forall>a. rlc_after (changes ! i) = Some a \<and> a \<noteq> [] \<longrightarrow>
                       lc_after (parsed ! i) = fromXDR cdc LedgerEntry a)"
        if "i < length changes" for i
      proof -
        from m that have "parseEntryChange cdc (changes ! i) = Inr (parsed ! i)"
          by (rule mapE_nth)
        then have k: "lc_type (parsed ! i) = rlc_type (changes ! i)"
            "fromXDR cdc LedgerKey (rlc_key (changes ! i)) = Some (lc_key (parsed ! i))"
          and b: "parseSnapshot cdc (rlc_before (changes ! i)) = Inr (lc_before (parsed ! i))"
          and a: "parseSnapshot cdc (rlc_after (changes ! i)) = Inr (lc_after (parsed ! i))"
          unfolding parseEntryChange_eq_Inr by simp_all
        show ?thesis
          using k snapshot_facts [OF b] snapshot_facts [OF a] by blast
      qed
      from mapE_length [OF m] p each show ?thesis by blast
    qed
    from s absent present
    show "\<exists>s. successOf out = Some s
          \<and> (rsim_stateChanges sim = None \<or> rsim_stateChanges sim = Some [] \<longrightarrow>
                ss_stateChanges s = None)
          \<and> (\<forall>changes. rsim_stateChanges sim = Some changes \<and> changes \<noteq> [] \<longrightarrow>
                (\<exists>parsed. ss_stateChanges s = Some parsed
                   \<and> length parsed = length changes
                   \<and> (\<forall>i < length changes.
                         lc_type (parsed ! i) = rlc_type (changes ! i)
                       \<and> fromXDR cdc LedgerKey (rlc_key (changes ! i)) = Some (lc_key (parsed ! i))
                       \<and> (lc_before (parsed ! i) = None \<longleftrightarrow> \<not> truthy (rlc_before (changes ! i)))
                       \<and> (\<forall>b. rlc_before (changes ! i) = Some b \<and> b \<noteq> [] \<longrightarrow>
                             lc_before (parsed ! i) = fromXDR cdc LedgerEntry b)
                       \<and> (lc_after (parsed ! i) = None \<longleftrightarrow> \<not> truthy (rlc_after (changes ! i)))
                       \<and> (\<forall>a. rlc_after (changes ! i) = Some a \<and> a \<noteq> [] \<longrightarrow>
                             lc_after (parsed ! i) = fromXDR cdc LedgerEntry a))))"
      by blast
  qed
  show "(\<exists>res. parseRawSimulation cdc (RawSimulation sim) = Inr res) \<longleftrightarrow> libraryAccepts cdc sim"
    by (rule parseRawSimulation_total)
qed

theorem parseRawSimulation_stateChanges_witness:
  "libraryAccepts sample_codec sample_simulation_changes
   \<and> rsim_error sample_simulation_changes = None
   \<and> rsim_stateChanges sample_simulation_changes =
       Some [\<lparr>rlc_type = 2, rlc_key = ''K1'', rlc_before = Some ''OLD'', rlc_after = Some ''NEW''\<rparr>,
             \<lparr>rlc_type = 1, rlc_key = ''K2'', rlc_before = None, rlc_after = Some ''ADD''\<rparr>,
             \<lparr>rlc_type = 3, rlc_key = ''K3'', rlc_before = Some ''DEL'', rlc_after = None\<rparr>]
   \<and> parseRawSimulation sample_codec (RawSimulation sample_simulation_changes) =
       Inr (SuccessResponse
              \<lparr>bs_parsed = True, bs_id = ''4'', bs_latestLedger = 100, bs_events = []\<rparr>
              \<lparr>ss_transactionData = DataBuilderObject (Some ''DATA''),
               ss_minResourceFee = Some ''100'', ss_cost = None,
               ss_result = None,
               ss_stateChanges =
                 Some [\<lparr>lc_type = 2, lc_key = XdrObject LedgerKey ''K1'',
                        lc_before = Some (XdrObject LedgerEntry ''OLD''),
                        lc_after = Some (XdrObject LedgerEntry ''NEW'')\<rparr>,
                       \<lparr>lc_type = 1, lc_key = XdrObject LedgerKey ''K2'',
                        lc_before = None,
                        lc_after = Some (XdrObject LedgerEntry ''ADD'')\<rparr>,
                       \<lparr>lc_type = 3, lc_key = XdrObject LedgerKey ''K3'',
                        lc_before = Some (XdrObject LedgerEntry ''DEL''),
                        lc_after = None\<rparr>]\<rparr>)"
proof -
  let ?out = "SuccessResponse
              \<lparr>bs_parsed = True, bs_id = ''4'', bs_latestLedger = 100, bs_events = []\<rparr>
              \<lparr>ss_transactionData = DataBuilderObject (Some ''DATA''),
               ss_minResourceFee = Some ''100'', ss_cost = None,
               ss_result = None,
               ss_stateChanges =
                 Some [\<lparr>lc_type = 2, lc_key = XdrObject LedgerKey ''K1'',
                        lc_before = Some (XdrObject LedgerEntry ''OLD''),
                        lc_after = Some (XdrObject LedgerEntry ''NEW'')\<rparr>,
                       \<lparr>lc_type = 1, lc_key = XdrObject LedgerKey ''K2'',
                        lc_before = None,
                        lc_after = Some (XdrObject LedgerEntry ''ADD'')\<rparr>,
                       \<lparr>lc_type = 3, lc_key = XdrObject LedgerKey ''K3'',
                        lc_before = Some (XdrObject LedgerEntry ''DEL''),
                        lc_after = None\<rparr>]\<rparr>"
  have "libraryAccepts sample_codec sample_simulation_changes"
    using parseRawSimulation_stateChanges [of sample_codec sample_simulation_changes ?out]
      sample_simulation_changes_parsed
    by blast
  with sample_simulation_changes_parsed show ?thesis
    by (simp add: sample_simulation_changes_def)
qed

end
